theory Spec2Isabelle
  imports Main "HOL-Library.Word"
begin

chapter \<open>The diff-review pipeline of AiReviewPR\<close>

text \<open>
  The pipeline collects the changed files of a pull request or of the last commit, asks
  a text-generation service for a review of each file's diff and posts each review as a
  comment. The repository holds two variants of it, an older one and an enhanced one
  (connectivity test, exponential backoff, size caps); both are modelled, the older one
  under names that end in \<open>_old\<close>.

  What the program does to the outside is made explicit: the network is a function that
  answers the requests (\<open>net\<close>), the timer is the list of the delays asked for, the
  repository is a function from command lines to their output (\<open>shell\<close>), the environment
  is a record of optional strings (\<open>env\<close>), and an exception is a value of type \<open>error\<close>
  on the left of a sum. Writing to the console is left out, except in the \<open>catch\<close> block
  of \<open>withRetry\<close>, where reading the message of the caught value can throw.
\<close>

section \<open>JavaScript values\<close>

text \<open>
  A JavaScript string is a sequence of UTF-16 code units, and \<open>length\<close>, \<open>substring\<close>,
  \<open>trim\<close> and \<open>split\<close> all work on code units. A string is therefore a list of 16-bit
  words; \<open>js\<close> embeds an ASCII literal of the source.
\<close>

type_synonym jsstring = "16 word list"

definition js :: "string \<Rightarrow> jsstring" where
  "js s = map of_char s"

text \<open>
  \<open>String.prototype.trim\<close> removes WhiteSpace and LineTerminator code points from both
  ends (ECMAScript 2015 and later); all of them lie in the basic multilingual plane.
\<close>

definition isWhiteSpace :: "16 word \<Rightarrow> bool" where
  "isWhiteSpace c \<longleftrightarrow>
     c \<in> {0x09, 0x0A, 0x0B, 0x0C, 0x0D, 0x20, 0xA0, 0x1680, 0x2028, 0x2029, 0x202F,
          0x205F, 0x3000, 0xFEFF} \<or> (0x2000 \<le> c \<and> c \<le> 0x200A)"

definition trim :: "jsstring \<Rightarrow> jsstring" where
  "trim s = rev (dropWhile isWhiteSpace (rev (dropWhile isWhiteSpace s)))"

text \<open>\<open>s.split(sep)\<close> for a one-unit separator: never the empty array.\<close>

fun split_on :: "16 word \<Rightarrow> jsstring \<Rightarrow> jsstring list" where
  "split_on c [] = [[]]"
| "split_on c (x # xs) =
     (if x = c then [] # split_on c xs
      else (case split_on c xs of
              [] \<Rightarrow> [[x]]
            | l # ls \<Rightarrow> (x # l) # ls))"

text \<open>\<open>parts.join(sep)\<close>.\<close>

fun join :: "jsstring \<Rightarrow> jsstring list \<Rightarrow> jsstring" where
  "join sep [] = []"
| "join sep [l] = l"
| "join sep (l # ls) = l @ sep @ join sep ls"

definition startsWith :: "jsstring \<Rightarrow> jsstring \<Rightarrow> bool" where
  "startsWith s p \<longleftrightarrow> take (length p) s = p"

definition endsWith :: "jsstring \<Rightarrow> jsstring \<Rightarrow> bool" where
  "endsWith s p \<longleftrightarrow> length p \<le> length s \<and> drop (length s - length p) s = p"

text \<open>
  \<open>s.substring(0, n)\<close> for a number \<open>n\<close> that may be negative: a negative end counts
  as zero and an end beyond the string as its length.
\<close>

definition substring0 :: "jsstring \<Rightarrow> int \<Rightarrow> jsstring" where
  "substring0 s n = take (nat n) s"

text \<open>
  The value \<open>JSON.parse\<close> gives for a response body. An object is kept as its list of
  properties, read with \<open>map_of\<close>. A number is kept as an integer: the program looks at a
  number only to ask whether it is zero.
\<close>

datatype json =
    JNull
  | JBool bool
  | JNum int
  | JStr jsstring
  | JArr "json list"
  | JObj "(jsstring \<times> json) list"

text \<open>
  Property access \<open>v.name\<close> for the names the program reads (\<open>error\<close>, \<open>detail\<close>,
  \<open>response\<close>, \<open>id\<close>): none of them exists on a string, number, boolean or array, so
  only an object can have one. \<open>None\<close> is \<open>undefined\<close>.
\<close>

fun field :: "json \<Rightarrow> jsstring \<Rightarrow> json option" where
  "field (JObj kvs) k = map_of kvs k"
| "field _ k = None"

text \<open>ToBoolean.\<close>

fun truthy :: "json \<Rightarrow> bool" where
  "truthy JNull = False"
| "truthy (JBool b) = b"
| "truthy (JNum n) = (n \<noteq> 0)"
| "truthy (JStr s) = (s \<noteq> [])"
| "truthy (JArr _) = True"
| "truthy (JObj _) = True"

fun truthy_opt :: "json option \<Rightarrow> bool" where
  "truthy_opt None = False"
| "truthy_opt (Some v) = truthy v"

text \<open>
  Everything that can be thrown. The Error objects of the program come first: the message
  texts of the source are kept as constructors, with the interpolated value as argument;
  \<open>NotAFunction\<close> and \<open>CannotReadProperty\<close> are the TypeErrors of the runtime, and
  \<open>External\<close> is an Error that comes from outside (\<open>post\<close> rejects with
  \<open>new Error(message)\<close>, a subprocess fails), with its message. The last three are
  values that are not Error objects: \<open>undefined\<close>, \<open>null\<close> and a string. Of these the
  program itself throws \<open>undefined\<close> only, when \<open>withRetry\<close> is asked for no attempt at
  all; but an operation handed to \<open>withRetry\<close> may reject with any value.
\<close>

datatype error =
    EmptyPrompt
  | EmptyResponse
  | ServiceError json
  | ServiceDetail json
  | NoResponseContent
  | MissingEnvironment
  | NoResponseId
  | NotAFunction
  | CannotReadProperty
  | ConnectivityFailed
  | AllFailed nat
  | InvalidRegExp jsstring
  | External jsstring
  | ThrownUndefined
  | ThrownNull
  | ThrownString jsstring

text \<open>
  What reading the property \<open>message\<close> of a caught value gives. Of \<open>undefined\<close> and of
  \<open>null\<close> no property can be read: the read throws a TypeError. A string has no such
  property, and the read gives \<open>undefined\<close>. The message of an Error object is a
  string; its text only goes to the console and is not kept.
\<close>

datatype property = Throws | Undefined | Text

fun read_message :: "error \<Rightarrow> property" where
  "read_message ThrownUndefined = Throws"
| "read_message ThrownNull = Throws"
| "read_message (ThrownString s) = Undefined"
| "read_message e = Text"

section \<open>Pattern filter (utils.ts)\<close>

text \<open>
  The regular-expression engine is the host's. \<open>new RegExp(pattern)\<close> either throws a
  SyntaxError or gives a matcher whose \<open>test\<close> says whether some part of the string
  matches; an engine is any such function.
\<close>

type_synonym regexp = "jsstring \<Rightarrow> bool"

type_synonym engine = "jsstring \<Rightarrow> regexp option"

definition new_RegExp :: "engine \<Rightarrow> jsstring \<Rightarrow> error + regexp" where
  "new_RegExp rx pattern =
     (case rx pattern of
        None \<Rightarrow> Inl (InvalidRegExp pattern)
      | Some regex \<Rightarrow> Inr regex)"

text \<open>The callback given to \<open>patterns.some\<close>: its \<open>catch\<close> turns the throw into \<open>false\<close>.\<close>

definition pattern_test :: "engine \<Rightarrow> jsstring \<Rightarrow> jsstring \<Rightarrow> bool" where
  "pattern_test rx str pattern =
     (case new_RegExp rx pattern of
        Inr regex \<Rightarrow> regex str
      | Inl e \<Rightarrow> False)"

definition doesAnyPatternMatch :: "engine \<Rightarrow> jsstring list \<Rightarrow> jsstring \<Rightarrow> bool" where
  "doesAnyPatternMatch rx patterns str =
     (if patterns = [] then False
      else if str = [] then False
      else list_ex (pattern_test rx str) patterns)"

text \<open>
  A small engine for evaluating the definitions on concrete inputs: a pattern is read
  as a literal that must occur at the start of the string, and a pattern that begins
  with an opening parenthesis does not compile.
\<close>

definition example_engine :: engine where
  "example_engine pattern =
     (if take 1 pattern = js ''('' then None
      else Some (\<lambda>str. startsWith str pattern))"

section \<open>Configuration and environment\<close>

text \<open>
  The \<open>config\<close> object. The older variant of the pipeline has the first six fields; the
  enhanced variant adds \<open>connectionTimeout\<close> and \<open>maxPromptLength\<close>. The two language
  fields and the prompt fields only feed \<open>systemPrompt\<close>, which is kept with the other
  module-level constants below.
\<close>

record config_old =
  includeFiles :: "jsstring list"
  excludeFiles :: "jsstring list"
  reviewPullRequest :: bool
  maxRetries :: nat
  retryDelay :: nat
  timeout :: nat

record config = config_old +
  connectionTimeout :: nat
  maxPromptLength :: int

text \<open>The constants of each variant, around the three fields read from the inputs.\<close>

definition make_config_old :: "jsstring list \<Rightarrow> jsstring list \<Rightarrow> bool \<Rightarrow> config_old" where
  "make_config_old inc exc pr =
     \<lparr>includeFiles = inc, excludeFiles = exc, reviewPullRequest = pr,
      maxRetries = 3, retryDelay = 2000, timeout = 30000\<rparr>"

definition make_config :: "jsstring list \<Rightarrow> jsstring list \<Rightarrow> bool \<Rightarrow> config" where
  "make_config inc exc pr =
     \<lparr>includeFiles = inc, excludeFiles = exc, reviewPullRequest = pr,
      maxRetries = 3, retryDelay = 5000, timeout = 120000,
      connectionTimeout = 10000, maxPromptLength = 8000\<rparr>"

text \<open>
  The module-level constants \<open>url\<close>, \<open>model\<close> (from \<open>validateEnvironment\<close>) and
  \<open>systemPrompt\<close> (whose default text comes from a module outside this development).
\<close>

record globals =
  url :: jsstring
  model :: jsstring
  systemPrompt :: jsstring

text \<open>
  \<open>process.env\<close>: a variable that is not set is \<open>None\<close>. \<open>clock\<close> is not a variable:
  it is the text \<open>new Date().toISOString()\<close> gives while item \<open>i\<close> is formatted.
\<close>

record env =
  INPUT_BASE_REF :: "jsstring option"
  INPUT_PULL_REQUEST_NUMBER :: "jsstring option"
  INPUT_REPOSITORY :: "jsstring option"
  INPUT_TOKEN :: "jsstring option"
  INPUT_AI_TOKEN :: "jsstring option"
  INPUT_REVIEW_PROMPT :: "jsstring option"
  GITHUB_API_URL :: "jsstring option"
  GITHUB_SERVER_URL :: "jsstring option"
  GITHUB_SHA :: "jsstring option"
  clock :: "nat \<Rightarrow> jsstring"

text \<open>\<open>!v\<close> for a variable: unset or empty.\<close>

definition falsy_var :: "jsstring option \<Rightarrow> bool" where
  "falsy_var v \<longleftrightarrow> (case v of None \<Rightarrow> True | Some s \<Rightarrow> s = [])"

text \<open>\<open>v || d\<close>.\<close>

definition or_else :: "jsstring option \<Rightarrow> jsstring \<Rightarrow> jsstring" where
  "or_else v d = (case v of None \<Rightarrow> d | Some s \<Rightarrow> if s = [] then d else s)"

text \<open>A variable inside a template literal: an unset one prints as \<open>undefined\<close>.\<close>

definition interpolate :: "jsstring option \<Rightarrow> jsstring" where
  "interpolate v = (case v of None \<Rightarrow> js ''undefined'' | Some s \<Rightarrow> s)"

section \<open>Diff collector\<close>

text \<open>
  \<open>execSync\<close> runs a command line and gives its standard output or throws. The
  repository does not change during a run, so a shell is a function of the command line.
\<close>

type_synonym shell = "jsstring \<Rightarrow> error + jsstring"

record item =
  item_path :: jsstring
  item_context :: jsstring

text \<open>\<open>diffOutput.trim().split("\n").filter(file => file.trim())\<close>\<close>

definition changed_files :: "jsstring \<Rightarrow> jsstring list" where
  "changed_files diffOutput =
     filter (\<lambda>file. trim file \<noteq> []) (split_on 0x0A (trim diffOutput))"

subsection \<open>Older variant\<close>

fun pr_loop_old ::
  "engine \<Rightarrow> 'a config_old_scheme \<Rightarrow> jsstring \<Rightarrow> shell \<Rightarrow> jsstring list \<Rightarrow> item list \<Rightarrow> item list"
where
  \<open>pr_loop_old rx cfg baseRef sh [] items = items\<close>
| \<open>pr_loop_old rx cfg baseRef sh (file # files) items =
     (if trim file = [] then pr_loop_old rx cfg baseRef sh files items
      else if includeFiles cfg \<noteq> [] \<and> \<not> doesAnyPatternMatch rx (includeFiles cfg) file
        then pr_loop_old rx cfg baseRef sh files items
      else if excludeFiles cfg \<noteq> [] \<and> doesAnyPatternMatch rx (excludeFiles cfg) file
        then pr_loop_old rx cfg baseRef sh files items
      else
        (case sh (js ''git diff origin/'' @ baseRef @ js ''...HEAD -- "'' @ file @ js ''"'') of
           Inl e \<Rightarrow> pr_loop_old rx cfg baseRef sh files items
         | Inr fileDiffOutput \<Rightarrow>
             if trim fileDiffOutput \<noteq> []
             then pr_loop_old rx cfg baseRef sh files
                    (items @ [\<lparr>item_path = file, item_context = fileDiffOutput\<rparr>])
             else pr_loop_old rx cfg baseRef sh files items))\<close>

definition getPrDiffContext_old ::
  "engine \<Rightarrow> 'a config_old_scheme \<Rightarrow> env \<Rightarrow> shell \<Rightarrow> error + item list"
where
  "getPrDiffContext_old rx cfg ev sh =
     (let baseRef = or_else (INPUT_BASE_REF ev) (js ''main'') in
      case sh (js ''git fetch origin '' @ baseRef) of
        Inl e \<Rightarrow> Inl e
      | Inr fetched \<Rightarrow>
          (case sh (js ''git diff --name-only origin/'' @ baseRef @ js ''...HEAD'') of
             Inl e \<Rightarrow> Inl e
           | Inr diffOutput \<Rightarrow>
               (let files = changed_files diffOutput in
                if files = [] then Inr []
                else Inr (pr_loop_old rx cfg baseRef sh files []))))"

fun head_loop_old ::
  "engine \<Rightarrow> 'a config_old_scheme \<Rightarrow> shell \<Rightarrow> jsstring list \<Rightarrow> item list \<Rightarrow> item list"
where
  \<open>head_loop_old rx cfg sh [] items = items\<close>
| \<open>head_loop_old rx cfg sh (file # files) items =
     (if trim file = [] then head_loop_old rx cfg sh files items
      else if includeFiles cfg \<noteq> [] \<and> \<not> doesAnyPatternMatch rx (includeFiles cfg) file
        then head_loop_old rx cfg sh files items
      else if excludeFiles cfg \<noteq> [] \<and> doesAnyPatternMatch rx (excludeFiles cfg) file
        then head_loop_old rx cfg sh files items
      else
        (case sh (js ''git diff HEAD^ -- "'' @ file @ js ''"'') of
           Inl e \<Rightarrow> head_loop_old rx cfg sh files items
         | Inr fileDiffOutput \<Rightarrow>
             if trim fileDiffOutput \<noteq> []
             then head_loop_old rx cfg sh files
                    (items @ [\<lparr>item_path = file, item_context = fileDiffOutput\<rparr>])
             else head_loop_old rx cfg sh files items))\<close>

definition getHeadDiffContext_old ::
  "engine \<Rightarrow> 'a config_old_scheme \<Rightarrow> shell \<Rightarrow> error + item list"
where
  "getHeadDiffContext_old rx cfg sh =
     (case sh (js ''git diff --name-only HEAD^'') of
        Inl e \<Rightarrow> Inl e
      | Inr diffOutput \<Rightarrow> Inr (head_loop_old rx cfg sh (changed_files diffOutput) []))"

subsection \<open>Enhanced variant\<close>

text \<open>The size cap on one file's diff, with its marker.\<close>

definition limitDiff :: "jsstring \<Rightarrow> jsstring" where
  "limitDiff fileDiffOutput =
     (if length fileDiffOutput > 10000
      then substring0 fileDiffOutput 10000 @ js ''\<newline>... [diff truncated for length]''
      else fileDiffOutput)"

fun pr_loop ::
  "engine \<Rightarrow> 'a config_old_scheme \<Rightarrow> jsstring \<Rightarrow> shell \<Rightarrow> jsstring list \<Rightarrow> item list \<Rightarrow> item list"
where
  \<open>pr_loop rx cfg baseRef sh [] items = items\<close>
| \<open>pr_loop rx cfg baseRef sh (file # files) items =
     (if trim file = [] then pr_loop rx cfg baseRef sh files items
      else if includeFiles cfg \<noteq> [] \<and> \<not> doesAnyPatternMatch rx (includeFiles cfg) file
        then pr_loop rx cfg baseRef sh files items
      else if excludeFiles cfg \<noteq> [] \<and> doesAnyPatternMatch rx (excludeFiles cfg) file
        then pr_loop rx cfg baseRef sh files items
      else
        (case sh (js ''git diff origin/'' @ baseRef @ js ''...HEAD -- "'' @ file @ js ''"'') of
           Inl e \<Rightarrow> pr_loop rx cfg baseRef sh files items
         | Inr fileDiffOutput \<Rightarrow>
             if trim fileDiffOutput \<noteq> []
             then (let limitedDiff = limitDiff fileDiffOutput in
                   pr_loop rx cfg baseRef sh files
                     (items @ [\<lparr>item_path = file, item_context = limitedDiff\<rparr>]))
             else pr_loop rx cfg baseRef sh files items))\<close>

definition getPrDiffContext ::
  "engine \<Rightarrow> 'a config_old_scheme \<Rightarrow> env \<Rightarrow> shell \<Rightarrow> error + item list"
where
  "getPrDiffContext rx cfg ev sh =
     (let baseRef = or_else (INPUT_BASE_REF ev) (js ''main'') in
      case sh (js ''git fetch origin '' @ baseRef) of
        Inl e \<Rightarrow> Inl e
      | Inr fetched \<Rightarrow>
          (case sh (js ''git diff --name-only origin/'' @ baseRef @ js ''...HEAD'') of
             Inl e \<Rightarrow> Inl e
           | Inr diffOutput \<Rightarrow>
               (let files = changed_files diffOutput in
                if files = [] then Inr []
                else Inr (pr_loop rx cfg baseRef sh files []))))"

fun head_loop ::
  "engine \<Rightarrow> 'a config_old_scheme \<Rightarrow> shell \<Rightarrow> jsstring list \<Rightarrow> item list \<Rightarrow> item list"
where
  \<open>head_loop rx cfg sh [] items = items\<close>
| \<open>head_loop rx cfg sh (file # files) items =
     (if trim file = [] then head_loop rx cfg sh files items
      else if includeFiles cfg \<noteq> [] \<and> \<not> doesAnyPatternMatch rx (includeFiles cfg) file
        then head_loop rx cfg sh files items
      else if excludeFiles cfg \<noteq> [] \<and> doesAnyPatternMatch rx (excludeFiles cfg) file
        then head_loop rx cfg sh files items
      else
        (case sh (js ''git diff HEAD^ -- "'' @ file @ js ''"'') of
           Inl e \<Rightarrow> head_loop rx cfg sh files items
         | Inr fileDiffOutput \<Rightarrow>
             if trim fileDiffOutput \<noteq> []
             then (let limitedDiff = limitDiff fileDiffOutput in
                   head_loop rx cfg sh files
                     (items @ [\<lparr>item_path = file, item_context = limitedDiff\<rparr>]))
             else head_loop rx cfg sh files items))\<close>

definition getHeadDiffContext ::
  "engine \<Rightarrow> 'a config_old_scheme \<Rightarrow> shell \<Rightarrow> error + item list"
where
  "getHeadDiffContext rx cfg sh =
     (case sh (js ''git diff --name-only HEAD^'') of
        Inl e \<Rightarrow> Inl e
      | Inr diffOutput \<Rightarrow> Inr (head_loop rx cfg sh (changed_files diffOutput) []))"

section \<open>Network and timer\<close>

text \<open>
  The JSON body of a request. Of the sampling options only the two that differ between
  the variants are kept (\<open>num_ctx\<close>, \<open>num_predict\<close>); \<open>stream\<close>, \<open>tfs_z\<close>, \<open>top_k\<close>,
  \<open>top_p\<close> and \<open>temperature\<close> are the same constants everywhere.
\<close>

datatype body =
    Generate (prompt: jsstring) (gen_model: jsstring) (system: jsstring)
      (num_ctx: nat) (num_predict: "nat option")
  | Comment (comment_body: jsstring)
  | Empty

record request =
  req_url :: jsstring
  req_body :: body
  req_header :: "(jsstring \<times> jsstring) list"
  req_timeout :: nat

text \<open>
  The network as the program sees it through \<open>post\<close> (utils.ts): the call resolves with
  the parsed body or rejects, and every rejection of \<open>post\<close> is a
  \<open>new Error(message)\<close>. \<open>reply n r\<close> is what the \<open>n\<close>-th call of a run gets for the
  request \<open>r\<close>, the message of the rejection (\<open>Inl\<close>) or the body (\<open>Inr\<close>); \<open>posted\<close> is
  the log of the calls made so far.
\<close>

record net =
  reply :: "nat \<Rightarrow> request \<Rightarrow> jsstring + json"
  posted :: "request list"

definition post :: "request \<Rightarrow> net \<Rightarrow> (error + json) \<times> net" where
  "post r w =
     (case reply w (length (posted w)) r of
        Inl m \<Rightarrow> Inl (External m)
      | Inr body \<Rightarrow> Inr body,
      w\<lparr>posted := posted w @ [r]\<rparr>)"

text \<open>
  The numbers a delay can be. A delay is computed in double-precision floating point: it
  is a natural number of milliseconds, or \<open>Infinity\<close> when the product overflows, or
  \<open>NaN\<close>. \<open>Math_pow2 k\<close> is \<open>Math.pow(2, k)\<close>: a power of two up to \<open>2 ^ 1023\<close>, and
  \<open>Infinity\<close> from there on. \<open>multiply r x\<close> is \<open>r * x\<close> for a base delay \<open>r\<close>, a natural
  number that is itself such a floating-point number. Its product with a power of two
  has the same significant digits, so it is exact as long as it is below \<open>2 ^ 1024\<close>
  and \<open>Infinity\<close> otherwise; \<open>r * 1\<close> is \<open>r\<close>, \<open>r * Infinity\<close> is \<open>Infinity\<close> for a
  positive \<open>r\<close>, and \<open>0 * Infinity\<close> is \<open>NaN\<close>.
\<close>

datatype number = Finite nat | Infinity | NaN

definition Math_pow2 :: "nat \<Rightarrow> number" where
  "Math_pow2 k = (if k < 1024 then Finite (2 ^ k) else Infinity)"

fun multiply :: "nat \<Rightarrow> number \<Rightarrow> number" where
  "multiply r (Finite p) = (if p = 1 \<or> r * p < 2 ^ 1024 then Finite (r * p) else Infinity)"
| "multiply r Infinity = (if r = 0 then NaN else Infinity)"
| "multiply r NaN = NaN"

text \<open>
  A state together with the delays (in milliseconds) the timer has been asked for, in
  order. An operation given to \<open>withRetry\<close> works on the state alone.
\<close>

type_synonym 'w timed = "'w \<times> number list"

definition sleep :: "number \<Rightarrow> 'w timed \<Rightarrow> 'w timed" where
  "sleep ms st = (fst st, snd st @ [ms])"

section \<open>Resilient operation executor\<close>

text \<open>
  An operation is an action on the state that resolves (\<open>Inr\<close>) or rejects (\<open>Inl\<close>), with
  any value. The \<open>catch\<close> block writes \<open>lastError.message\<close> to the console before it
  waits, and the enhanced variant goes on to call \<open>lastError.message.toLowerCase()\<close>.
  When the caught value is \<open>undefined\<close> or \<open>null\<close> the read throws a TypeError; when its
  \<open>message\<close> is \<open>undefined\<close> the call of \<open>toLowerCase\<close> does. Thrown inside the \<open>catch\<close>
  block, the TypeError leaves \<open>withRetry\<close> at once: no delay and no further attempt.
  The other console lines are left out. \<open>lastError\<close> is unassigned (\<open>None\<close>) until an
  attempt has failed, so that \<open>throw lastError\<close> throws \<open>undefined\<close> when no attempt is
  made at all.
\<close>

subsection \<open>Older variant\<close>

function withRetry_old_loop ::
  "'c config_old_scheme \<Rightarrow> ('w \<Rightarrow> (error + 'a) \<times> 'w) \<Rightarrow> nat \<Rightarrow> nat \<Rightarrow> error option \<Rightarrow>
   'w timed \<Rightarrow> (error + 'a) \<times> 'w timed"
where
  "withRetry_old_loop cfg operation maxR attempt lastError st =
     (if attempt \<le> maxR then
        (case operation (fst st) of
           (Inr v, w') \<Rightarrow> (Inr v, (w', snd st))
         | (Inl e, w') \<Rightarrow>
             (case read_message e of
                Throws \<Rightarrow> (Inl CannotReadProperty, (w', snd st))
              | _ \<Rightarrow>
                  (if attempt < maxR
                   then withRetry_old_loop cfg operation maxR (attempt + 1) (Some e)
                          (sleep (Finite (retryDelay cfg)) (w', snd st))
                   else withRetry_old_loop cfg operation maxR (attempt + 1) (Some e)
                          (w', snd st))))
      else (Inl (case lastError of None \<Rightarrow> ThrownUndefined | Some e \<Rightarrow> e), st))"
  by pat_completeness auto
termination
  by (relation "measure (\<lambda>(cfg, operation, maxR, attempt, lastError, st). maxR + 1 - attempt)") auto

definition withRetry_old ::
  "'c config_old_scheme \<Rightarrow> ('w \<Rightarrow> (error + 'a) \<times> 'w) \<Rightarrow> nat \<Rightarrow> 'w timed \<Rightarrow> (error + 'a) \<times> 'w timed"
where
  "withRetry_old cfg operation maxR st = withRetry_old_loop cfg operation maxR 1 None st"

subsection \<open>Enhanced variant\<close>

function withRetry_loop ::
  "'c config_old_scheme \<Rightarrow> ('w \<Rightarrow> (error + 'a) \<times> 'w) \<Rightarrow> nat \<Rightarrow> bool \<Rightarrow> nat \<Rightarrow> error option \<Rightarrow>
   'w timed \<Rightarrow> (error + 'a) \<times> 'w timed"
where
  "withRetry_loop cfg operation maxR useExponentialBackoff attempt lastError st =
     (if attempt \<le> maxR then
        (case operation (fst st) of
           (Inr v, w') \<Rightarrow> (Inr v, (w', snd st))
         | (Inl e, w') \<Rightarrow>
             (case read_message e of
                Throws \<Rightarrow> (Inl CannotReadProperty, (w', snd st))
              | Undefined \<Rightarrow> (Inl CannotReadProperty, (w', snd st))
              | Text \<Rightarrow>
                  (if attempt < maxR
                   then (let delay = (if useExponentialBackoff
                                      then multiply (retryDelay cfg) (Math_pow2 (attempt - 1))
                                      else Finite (retryDelay cfg))
                         in withRetry_loop cfg operation maxR useExponentialBackoff
                              (attempt + 1) (Some e) (sleep delay (w', snd st)))
                   else withRetry_loop cfg operation maxR useExponentialBackoff (attempt + 1)
                          (Some e) (w', snd st))))
      else (Inl (case lastError of None \<Rightarrow> ThrownUndefined | Some e \<Rightarrow> e), st))"
  by pat_completeness auto
termination
  by (relation "measure (\<lambda>(cfg, operation, maxR, ex, attempt, lastError, st). maxR + 1 - attempt)")
    auto

definition withRetry ::
  "'c config_old_scheme \<Rightarrow> ('w \<Rightarrow> (error + 'a) \<times> 'w) \<Rightarrow> nat \<Rightarrow> bool \<Rightarrow> 'w timed \<Rightarrow>
   (error + 'a) \<times> 'w timed"
where
  "withRetry cfg operation maxR useExponentialBackoff st =
     withRetry_loop cfg operation maxR useExponentialBackoff 1 None st"

section \<open>Comment publisher\<close>

definition local_log :: json where
  "local_log = JObj [(js ''id'', JStr (js ''local-log'')), (js ''success'', JBool True)]"

definition comment_header :: "jsstring option \<Rightarrow> (jsstring \<times> jsstring) list" where
  "comment_header token =
     [(js ''Authorization'', js ''token '' @ interpolate token),
      (js ''Accept'', js ''application/vnd.github.v3+json''),
      (js ''User-Agent'', js ''AI-Review-Bot'')]"

definition comment_endpoint :: "env \<Rightarrow> jsstring" where
  "comment_endpoint ev =
     or_else (GITHUB_API_URL ev) (js ''https://api.github.com'') @ js ''/repos/''
       @ interpolate (INPUT_REPOSITORY ev) @ js ''/issues/''
       @ interpolate (INPUT_PULL_REQUEST_NUMBER ev) @ js ''/comments''"

text \<open>The older variant leaves the timeout of \<open>post\<close> at its default, 30000.\<close>

definition pushComments_old ::
  "'c config_old_scheme \<Rightarrow> env \<Rightarrow> jsstring \<Rightarrow> net timed \<Rightarrow> (error + json) \<times> net timed"
where
  "pushComments_old cfg ev message st =
     (if falsy_var (INPUT_PULL_REQUEST_NUMBER ev) then (Inr local_log, st)
      else if falsy_var (INPUT_REPOSITORY ev) \<or> falsy_var (INPUT_TOKEN ev)
        then (Inl MissingEnvironment, st)
      else withRetry_old cfg
             (post \<lparr>req_url = comment_endpoint ev, req_body = Comment message,
                    req_header = comment_header (INPUT_TOKEN ev), req_timeout = 30000\<rparr>)
             (maxRetries cfg) st)"

definition pushComments ::
  "'c config_old_scheme \<Rightarrow> env \<Rightarrow> jsstring \<Rightarrow> net timed \<Rightarrow> (error + json) \<times> net timed"
where
  "pushComments cfg ev message st =
     (if falsy_var (INPUT_PULL_REQUEST_NUMBER ev) then (Inr local_log, st)
      else if falsy_var (INPUT_REPOSITORY ev) \<or> falsy_var (INPUT_TOKEN ev)
        then (Inl MissingEnvironment, st)
      else withRetry cfg
             (post \<lparr>req_url = comment_endpoint ev, req_body = Comment message,
                    req_header = comment_header (INPUT_TOKEN ev), req_timeout = 15000\<rparr>)
             (maxRetries cfg) False st)"

section \<open>Text-generation client\<close>

definition truncatePrompt :: "jsstring \<Rightarrow> int \<Rightarrow> jsstring" where
  "truncatePrompt p maxLength =
     (if int (length p) \<le> maxLength then p
      else
        (let lines = split_on 0x0A p;
             simple = substring0 p (maxLength - 50)
                        @ js ''\<newline>\<newline>[... truncated for length ...]''
         in if length lines > 10 then
              (let header = join (js ''\<newline>'') (take 5 lines);
                   footer = join (js ''\<newline>'') (drop (length lines - 5) lines);
                   truncated = header
                     @ js ''\<newline>\<newline>[... content truncated for length ...]\<newline>\<newline>''
                     @ footer
               in if int (length truncated) \<le> maxLength then truncated else simple)
            else simple))"

definition generate_header :: "jsstring option \<Rightarrow> (jsstring \<times> jsstring) list" where
  "generate_header token =
     [(js ''Authorization'', if falsy_var token then [] else js ''Bearer '' @ interpolate token),
      (js ''Content-Type'', js ''application/json'')]"

text \<open>
  The checks on the parsed body, after \<open>post\<close> has resolved. They are the same in both
  variants and run inside the operation that is handed to the executor.
\<close>

definition validate_response :: "json \<Rightarrow> error + json" where
  "validate_response response =
     (if \<not> truthy response then Inl EmptyResponse
      else if truthy_opt (field response (js ''error''))
        then Inl (ServiceError (the (field response (js ''error''))))
      else if truthy_opt (field response (js ''detail''))
        then Inl (ServiceDetail (the (field response (js ''detail''))))
      else if \<not> truthy_opt (field response (js ''response'')) then Inl NoResponseContent
      else Inr response)"

definition generate_operation :: "request \<Rightarrow> net \<Rightarrow> (error + json) \<times> net" where
  "generate_operation r w =
     (case post r w of
        (Inl e, w') \<Rightarrow> (Inl e, w')
      | (Inr response, w') \<Rightarrow> (validate_response response, w'))"

definition requestData_old :: "globals \<Rightarrow> jsstring \<Rightarrow> jsstring \<Rightarrow> jsstring option \<Rightarrow> body" where
  "requestData_old g p mdl sys =
     Generate (trim p) mdl (or_else sys (systemPrompt g)) 10240 None"

definition generate_request_old ::
  "globals \<Rightarrow> jsstring \<Rightarrow> jsstring option \<Rightarrow> jsstring \<Rightarrow> jsstring \<Rightarrow> jsstring option \<Rightarrow> request"
where
  "generate_request_old g host token p mdl sys =
     \<lparr>req_url = host @ js ''/api/generate'', req_body = requestData_old g p mdl sys,
      req_header = generate_header token, req_timeout = 30000\<rparr>"

definition aiGenerate_old ::
  "'c config_old_scheme \<Rightarrow> globals \<Rightarrow> jsstring \<Rightarrow> jsstring option \<Rightarrow> jsstring \<Rightarrow> jsstring \<Rightarrow>
   jsstring option \<Rightarrow> net timed \<Rightarrow> (error + json) \<times> net timed"
where
  "aiGenerate_old cfg g host token p mdl sys st =
     (if trim p = [] then (Inl EmptyPrompt, st)
      else withRetry_old cfg
             (generate_operation (generate_request_old g host token p mdl sys)) 2 st)"

definition requestData ::
  "config \<Rightarrow> globals \<Rightarrow> jsstring \<Rightarrow> jsstring \<Rightarrow> jsstring option \<Rightarrow> body"
where
  "requestData cfg g p mdl sys =
     (let truncatedPrompt = truncatePrompt (trim p) (maxPromptLength cfg)
      in Generate truncatedPrompt mdl (or_else sys (systemPrompt g)) 8192 (Some 2048))"

definition generate_request ::
  "config \<Rightarrow> globals \<Rightarrow> jsstring \<Rightarrow> jsstring option \<Rightarrow> jsstring \<Rightarrow> jsstring \<Rightarrow>
   jsstring option \<Rightarrow> request"
where
  "generate_request cfg g host token p mdl sys =
     \<lparr>req_url = host @ js ''/api/generate'', req_body = requestData cfg g p mdl sys,
      req_header = generate_header token, req_timeout = timeout cfg\<rparr>"

definition aiGenerate ::
  "config \<Rightarrow> globals \<Rightarrow> jsstring \<Rightarrow> jsstring option \<Rightarrow> jsstring \<Rightarrow> jsstring \<Rightarrow>
   jsstring option \<Rightarrow> net timed \<Rightarrow> (error + json) \<times> net timed"
where
  "aiGenerate cfg g host token p mdl sys st =
     (if trim p = [] then (Inl EmptyPrompt, st)
      else withRetry cfg
             (generate_operation (generate_request cfg g host token p mdl sys)) 2 True st)"

section \<open>Review orchestrator\<close>

definition reviewTitle :: jsstring where
  "reviewTitle = [0xD83E, 0xDD16] @ js '' AI Code Review''"

definition commitShaUrl :: "env \<Rightarrow> jsstring" where
  "commitShaUrl ev =
     or_else (GITHUB_SERVER_URL ev) (js ''https://github.com'') @ js ''/''
       @ interpolate (INPUT_REPOSITORY ev) @ js ''/commit/'' @ interpolate (GITHUB_SHA ev)"

text \<open>Removing a \<open>```markdown\<close> fence from the generated text.\<close>

definition strip_fence :: "jsstring \<Rightarrow> jsstring" where
  "strip_fence commit =
     (if startsWith commit (js ''```markdown'')
      then (let c = drop (length (js ''```markdown'')) commit
            in if endsWith c (js ''```'') then substring0 c (int (length c) - 3) else c)
      else commit)"

text \<open>
  \<open>let commit: string = response.response\<close> is only an annotation: a value that is not a
  string has no \<open>startsWith\<close> method, and calling it throws a TypeError.
\<close>

definition response_text :: "json \<Rightarrow> error + jsstring" where
  "response_text response =
     (case field response (js ''response'') of
        Some (JStr commit) \<Rightarrow> Inr (strip_fence commit)
      | _ \<Rightarrow> Inl NotAFunction)"

subsection \<open>Older variant\<close>

definition format_comment_old :: "env \<Rightarrow> item \<Rightarrow> jsstring \<Rightarrow> jsstring" where
  "format_comment_old ev it commit =
     js ''# '' @ reviewTitle @ js ''\<newline>**File:** ['' @ item_path it @ js '']('' @ commitShaUrl ev
       @ js ''/'' @ item_path it @ js '')\<newline>\<newline>'' @ trim commit"

text \<open>The body of the \<open>try\<close> block for one item.\<close>

definition process_item_old ::
  "'c config_old_scheme \<Rightarrow> globals \<Rightarrow> env \<Rightarrow> item \<Rightarrow> net timed \<Rightarrow> (error + unit) \<times> net timed"
where
  "process_item_old cfg g ev it st =
     (case aiGenerate_old cfg g (url g) (INPUT_AI_TOKEN ev) (item_context it) (model g)
             (INPUT_REVIEW_PROMPT ev) st of
        (Inl e, st1) \<Rightarrow> (Inl e, st1)
      | (Inr response, st1) \<Rightarrow>
          (case response_text response of
             Inl e \<Rightarrow> (Inl e, st1)
           | Inr commit \<Rightarrow>
               (case pushComments_old cfg ev (format_comment_old ev it commit) st1 of
                  (Inl e, st2) \<Rightarrow> (Inl e, st2)
                | (Inr resp, st2) \<Rightarrow>
                    if \<not> truthy_opt (field resp (js ''id'')) then (Inl NoResponseId, st2)
                    else (Inr (), st2))))"

text \<open>The loop over the items; the pair is \<open>(successCount, errorCount)\<close>.\<close>

fun review_loop_old ::
  "'c config_old_scheme \<Rightarrow> globals \<Rightarrow> env \<Rightarrow> item list \<Rightarrow> nat \<times> nat \<Rightarrow> net timed \<Rightarrow>
   (nat \<times> nat) \<times> net timed"
where
  "review_loop_old cfg g ev [] counts st = (counts, st)"
| "review_loop_old cfg g ev (it # rest) counts st =
     (case process_item_old cfg g ev it st of
        (Inr u, st') \<Rightarrow> review_loop_old cfg g ev rest (fst counts + 1, snd counts) st'
      | (Inl e, st') \<Rightarrow> review_loop_old cfg g ev rest (fst counts, snd counts + 1) st')"

text \<open>
  How \<open>aiCheckDiffContext\<close> ends: its promise resolves, or \<open>process.exit\<close> ends the
  process with a code.
\<close>

datatype ending = Resolved | Exit nat

definition run_old ::
  "engine \<Rightarrow> 'c config_old_scheme \<Rightarrow> globals \<Rightarrow> env \<Rightarrow> shell \<Rightarrow> net timed \<Rightarrow>
   (error + unit) \<times> net timed"
where
  "run_old rx cfg g ev sh st =
     (case (if reviewPullRequest cfg then getPrDiffContext_old rx cfg ev sh
            else getHeadDiffContext_old rx cfg sh) of
        Inl e \<Rightarrow> (Inl e, st)
      | Inr items \<Rightarrow>
          if items = [] then (Inr (), st)
          else (case review_loop_old cfg g ev items (0, 0) st of
                  ((successCount, errorCount), st') \<Rightarrow>
                    if errorCount > 0 \<and> successCount = 0
                    then (Inl (AllFailed (length items)), st')
                    else (Inr (), st')))"

definition aiCheckDiffContext_old ::
  "engine \<Rightarrow> 'c config_old_scheme \<Rightarrow> globals \<Rightarrow> env \<Rightarrow> shell \<Rightarrow> net timed \<Rightarrow> ending \<times> net timed"
where
  "aiCheckDiffContext_old rx cfg g ev sh st =
     (case run_old rx cfg g ev sh st of
        (Inl e, st') \<Rightarrow> (Exit 1, st')
      | (Inr u, st') \<Rightarrow> (Resolved, st'))"

subsection \<open>Enhanced variant\<close>

definition tags_request :: "globals \<Rightarrow> request" where
  "tags_request g =
     \<lparr>req_url = url g @ js ''/api/tags'', req_body = Empty, req_header = [], req_timeout = 10000\<rparr>"

definition testOllamaConnection :: "globals \<Rightarrow> net timed \<Rightarrow> (error + unit) \<times> net timed" where
  "testOllamaConnection g st =
     (case post (tags_request g) (fst st) of
        (Inl e, w') \<Rightarrow> (Inl ConnectivityFailed, (w', snd st))
      | (Inr r, w') \<Rightarrow> (Inr (), (w', snd st)))"

definition format_comment :: "globals \<Rightarrow> env \<Rightarrow> nat \<Rightarrow> item \<Rightarrow> jsstring \<Rightarrow> jsstring" where
  "format_comment g ev i it commit =
     js ''# '' @ reviewTitle @ js ''\<newline>**File:** ['' @ item_path it @ js '']('' @ commitShaUrl ev
       @ js ''/'' @ item_path it @ js '')\<newline>**Model:** '' @ model g
       @ js ''\<newline>**Reviewed at:** '' @ clock ev i @ js ''\<newline>\<newline>'' @ trim commit
       @ js ''\<newline>\<newline>---\<newline>*This review was generated automatically by AI. Please review the suggestions carefully before implementing.*''"

definition process_item ::
  "config \<Rightarrow> globals \<Rightarrow> env \<Rightarrow> nat \<Rightarrow> item \<Rightarrow> net timed \<Rightarrow> (error + unit) \<times> net timed"
where
  "process_item cfg g ev i it st =
     (let st0 = (if i > 0 then sleep (Finite 2000) st else st) in
      case aiGenerate cfg g (url g) (INPUT_AI_TOKEN ev) (item_context it) (model g)
             (INPUT_REVIEW_PROMPT ev) st0 of
        (Inl e, st1) \<Rightarrow> (Inl e, st1)
      | (Inr response, st1) \<Rightarrow>
          (case response_text response of
             Inl e \<Rightarrow> (Inl e, st1)
           | Inr commit \<Rightarrow>
               (case pushComments cfg ev (format_comment g ev i it commit) st1 of
                  (Inl e, st2) \<Rightarrow> (Inl e, st2)
                | (Inr resp, st2) \<Rightarrow>
                    if \<not> truthy_opt (field resp (js ''id'')) then (Inl NoResponseId, st2)
                    else (Inr (), st2))))"

record tally =
  successCount :: nat
  errorCount :: nat
  failedFiles :: "jsstring list"

text \<open>The loop \<open>for (let i = 0; i < items.length; i++)\<close>, on the items from \<open>i\<close> on.\<close>

fun review_loop ::
  "config \<Rightarrow> globals \<Rightarrow> env \<Rightarrow> nat \<Rightarrow> item list \<Rightarrow> tally \<Rightarrow> net timed \<Rightarrow> tally \<times> net timed"
where
  "review_loop cfg g ev i [] t st = (t, st)"
| "review_loop cfg g ev i (it # rest) t st =
     (case process_item cfg g ev i it st of
        (Inr u, st') \<Rightarrow>
          review_loop cfg g ev (i + 1) rest (t\<lparr>successCount := successCount t + 1\<rparr>) st'
      | (Inl e, st') \<Rightarrow>
          review_loop cfg g ev (i + 1) rest
            (t\<lparr>errorCount := errorCount t + 1, failedFiles := failedFiles t @ [item_path it]\<rparr>)
            st')"

definition run ::
  "engine \<Rightarrow> config \<Rightarrow> globals \<Rightarrow> env \<Rightarrow> shell \<Rightarrow> net timed \<Rightarrow> (error + unit) \<times> net timed"
where
  "run rx cfg g ev sh st =
     (case testOllamaConnection g st of
        (Inl e, st0) \<Rightarrow> (Inl e, st0)
      | (Inr u, st0) \<Rightarrow>
          (case (if reviewPullRequest cfg then getPrDiffContext rx cfg ev sh
                 else getHeadDiffContext rx cfg sh) of
             Inl e \<Rightarrow> (Inl e, st0)
           | Inr items \<Rightarrow>
               if items = [] then (Inr (), st0)
               else (case review_loop cfg g ev 0 items
                            \<lparr>successCount = 0, errorCount = 0, failedFiles = []\<rparr> st0 of
                       (t, st') \<Rightarrow>
                         if errorCount t > 0 \<and> successCount t = 0
                         then (Inl (AllFailed (length items)), st')
                         else (Inr (), st'))))"

definition aiCheckDiffContext ::
  "engine \<Rightarrow> config \<Rightarrow> globals \<Rightarrow> env \<Rightarrow> shell \<Rightarrow> net timed \<Rightarrow> ending \<times> net timed"
where
  "aiCheckDiffContext rx cfg g ev sh st =
     (case run rx cfg g ev sh st of
        (Inl e, st') \<Rightarrow> (Exit 1, st')
      | (Inr u, st') \<Rightarrow> (Resolved, st'))"

subsection \<open>The outcome of each item\<close>

text \<open>
  What the \<open>try\<close> block of each item gives, in order, each item starting from the state
  the one before it left. The loops do not compute this list; it is what their counters
  are compared with.
\<close>

fun item_outcomes ::
  "config \<Rightarrow> globals \<Rightarrow> env \<Rightarrow> nat \<Rightarrow> item list \<Rightarrow> net timed \<Rightarrow> (error + unit) list"
where
  "item_outcomes cfg g ev i [] st = []"
| "item_outcomes cfg g ev i (it # rest) st =
     (case process_item cfg g ev i it st of
        (r, st') \<Rightarrow> r # item_outcomes cfg g ev (i + 1) rest st')"

fun item_outcomes_old ::
  "'c config_old_scheme \<Rightarrow> globals \<Rightarrow> env \<Rightarrow> item list \<Rightarrow> net timed \<Rightarrow> (error + unit) list"
where
  "item_outcomes_old cfg g ev [] st = []"
| "item_outcomes_old cfg g ev (it # rest) st =
     (case process_item_old cfg g ev it st of
        (r, st') \<Rightarrow> r # item_outcomes_old cfg g ev rest st')"

text \<open>The paths of the items whose outcome is a failure.\<close>

definition failed_paths :: "item list \<Rightarrow> (error + unit) list \<Rightarrow> jsstring list" where
  "failed_paths items rs = map (item_path \<circ> fst) (filter (isl \<circ> snd) (zip items rs))"

section \<open>Vocabulary of the properties\<close>

text \<open>The command line that asks for one file's diff, in each mode.\<close>

definition head_diff_command :: "jsstring \<Rightarrow> jsstring" where
  \<open>head_diff_command file = js ''git diff HEAD^ -- "'' @ file @ js ''"''\<close>

definition pr_diff_command :: "jsstring \<Rightarrow> jsstring \<Rightarrow> jsstring" where
  \<open>pr_diff_command baseRef file =
     js ''git diff origin/'' @ baseRef @ js ''...HEAD -- "'' @ file @ js ''"''\<close>

definition pr_names_command :: "jsstring \<Rightarrow> jsstring" where
  "pr_names_command baseRef = js ''git diff --name-only origin/'' @ baseRef @ js ''...HEAD''"

definition base_ref :: "env \<Rightarrow> jsstring" where
  "base_ref ev = or_else (INPUT_BASE_REF ev) (js ''main'')"

text \<open>A file has a diff when the command succeeds and prints more than white space.\<close>

definition has_diff :: "error + jsstring \<Rightarrow> bool" where
  "has_diff r = (case r of Inl e \<Rightarrow> False | Inr d \<Rightarrow> trim d \<noteq> [])"

text \<open>
  The file-inclusion policy in the words of the specification: a file is in scope iff
  (include is empty or matches(include, file)) and not matches(exclude, file).
\<close>

definition in_scope :: "engine \<Rightarrow> jsstring list \<Rightarrow> jsstring list \<Rightarrow> jsstring \<Rightarrow> bool" where
  "in_scope rx inc exc file \<longleftrightarrow>
     (inc = [] \<or> doesAnyPatternMatch rx inc file) \<and> \<not> doesAnyPatternMatch rx exc file"

text \<open>
  A body lacks a non-empty text field, in the words of the specification: its \<open>response\<close>
  property is missing, is not a string, or is the empty string.
\<close>

definition lacks_text :: "json \<Rightarrow> bool" where
  "lacks_text body \<longleftrightarrow>
     (case field body (js ''response'') of Some (JStr s) \<Rightarrow> s = [] | _ \<Rightarrow> True)"

text \<open>The delay \<open>withRetry\<close> asks for after the failed attempt number \<open>attempt\<close>.\<close>

definition backoff :: "nat \<Rightarrow> bool \<Rightarrow> nat \<Rightarrow> number" where
  "backoff baseDelay useExponentialBackoff attempt =
     (if useExponentialBackoff then multiply baseDelay (Math_pow2 (attempt - 1))
      else Finite baseDelay)"

text \<open>
  An attempt that is rejected with an Error object, whose message is a string; and an
  attempt that is rejected with any other value.
\<close>

definition rejects_Error :: "error + 'a \<Rightarrow> bool" where
  "rejects_Error r = (case r of Inl e \<Rightarrow> read_message e = Text | Inr v \<Rightarrow> False)"

definition rejects_other :: "error + 'a \<Rightarrow> bool" where
  "rejects_other r = (case r of Inl e \<Rightarrow> read_message e \<noteq> Text | Inr v \<Rightarrow> False)"

text \<open>The state an operation is in when it is called for the \<open>(k+1)\<close>-th time in a row.\<close>

definition after_attempts :: "('w \<Rightarrow> (error + 'a) \<times> 'w) \<Rightarrow> nat \<Rightarrow> 'w \<Rightarrow> 'w" where
  "after_attempts operation k w = ((\<lambda>s. snd (operation s)) ^^ k) w"

section \<open>Concrete inputs\<close>

text \<open>
  A network for evaluating the clients on concrete inputs: the replies are taken from a
  list, in order, whatever the request; when the list is used up the request is refused.
\<close>

definition scripted_net :: "(jsstring + json) list \<Rightarrow> net" where
  "scripted_net replies =
     \<lparr>reply = (\<lambda>n r. if n < length replies then replies ! n
                       else Inl (js ''connection refused'')),
      posted = []\<rparr>"

text \<open>Two bodies: one reports an error, one carries a review.\<close>

definition error_body :: json where
  "error_body = JObj [(js ''error'', JStr (js ''model not found''))]"

definition review_body :: json where
  "review_body = JObj [(js ''response'', JStr (js ''LGTM''))]"

text \<open>A body whose \<open>response\<close> is a number, and a review that comes with \<open>error: null\<close>.\<close>

definition number_body :: json where
  "number_body = JObj [(js ''response'', JNum 42)]"

definition null_error_body :: json where
  "null_error_body = JObj [(js ''error'', JNull), (js ''response'', JStr (js ''LGTM''))]"

definition example_globals :: globals where
  "example_globals =
     \<lparr>url = js ''http://localhost:11434'', model = js ''llama3'',
      systemPrompt = js ''You are a code reviewer.''\<rparr>"

text \<open>The two items of the example repository, and the state once the connectivity test has passed.\<close>

definition item_a :: item where
  "item_a = \<lparr>item_path = js ''src/a.ts'', item_context = js ''+x''\<rparr>"

definition item_b :: item where
  "item_b = \<lparr>item_path = js ''docs/b.md'', item_context = js ''+y''\<rparr>"

definition connected :: "(jsstring + json) list \<Rightarrow> net timed" where
  "connected replies = ((scripted_net replies)\<lparr>posted := [tags_request example_globals]\<rparr>, [])"

text \<open>
  A shell given by a table of command lines and their outputs, for evaluating the
  collectors on concrete inputs; a command that is not in the table fails.
\<close>

definition table_shell :: "(jsstring \<times> jsstring) list \<Rightarrow> shell" where
  "table_shell tbl command =
     (case map_of tbl command of
        None \<Rightarrow> Inl (External (js ''command failed''))
      | Some out \<Rightarrow> Inr out)"

text \<open>
  A repository with two changed files, in both modes, and an environment in which no
  variable is set.
\<close>

definition example_shell :: shell where
  "example_shell =
     table_shell
       [(js ''git diff --name-only HEAD^'', js ''src/a.ts\<newline>docs/b.md\<newline>''),
        (head_diff_command (js ''src/a.ts''), js ''+x''),
        (head_diff_command (js ''docs/b.md''), js ''+y''),
        (js ''git fetch origin main'', []),
        (pr_names_command (js ''main''), js ''src/a.ts\<newline>docs/b.md\<newline>''),
        (pr_diff_command (js ''main'') (js ''src/a.ts''), js ''+x''),
        (pr_diff_command (js ''main'') (js ''docs/b.md''), js ''+y'')]"

definition example_env :: env where
  "example_env =
     \<lparr>INPUT_BASE_REF = None, INPUT_PULL_REQUEST_NUMBER = None, INPUT_REPOSITORY = None,
      INPUT_TOKEN = None, INPUT_AI_TOKEN = None, INPUT_REVIEW_PROMPT = None,
      GITHUB_API_URL = None, GITHUB_SERVER_URL = None, GITHUB_SHA = None,
      clock = (\<lambda>i. js ''2024-01-01T00:00:00.000Z'')\<rparr>"

text \<open>
  An operation for evaluating the executor on a concrete input: its state counts the
  calls, and the first two calls fail.
\<close>

definition example_operation :: "nat \<Rightarrow> (error + nat) \<times> nat" where
  "example_operation n = (if n < 2 then Inl (External (js ''down'')) else Inr n, Suc n)"

text \<open>
  Three more operations of the same kind: one whose first call rejects with \<open>undefined\<close>,
  one whose first call rejects with a string, and one that never succeeds.
\<close>

definition undefined_operation :: "nat \<Rightarrow> (error + nat) \<times> nat" where
  "undefined_operation n = (if n < 1 then Inl ThrownUndefined else Inr n, Suc n)"

definition string_operation :: "nat \<Rightarrow> (error + nat) \<times> nat" where
  "string_operation n = (if n < 1 then Inl (ThrownString (js ''down'')) else Inr n, Suc n)"

definition failing_operation :: "nat \<Rightarrow> (error + nat) \<times> nat" where
  "failing_operation n = (Inl (External (js ''down'')), Suc n)"

section \<open>Properties of the pattern filter\<close>

lemma doesAnyPatternMatch_Nil: "\<not> doesAnyPatternMatch rx [] F"
  by (simp add: doesAnyPatternMatch_def)

lemma doesAnyPatternMatch_iff:
  "doesAnyPatternMatch rx P F \<longleftrightarrow>
     F \<noteq> [] \<and> (\<exists>p \<in> set P. \<exists>regex. new_RegExp rx p = Inr regex \<and> regex F)"
  by (auto simp: doesAnyPatternMatch_def list_ex_iff pattern_test_def new_RegExp_def
      split: option.splits)

lemma pattern_test_invalid: "new_RegExp rx q = Inl e \<Longrightarrow> \<not> pattern_test rx F q"
  by (simp add: pattern_test_def)

lemma doesAnyPatternMatch_drop_invalid:
  assumes "new_RegExp rx q = Inl e"
  shows "doesAnyPatternMatch rx (xs @ q # ys) F = doesAnyPatternMatch rx (xs @ ys) F"
  using assms by (auto simp: doesAnyPatternMatch_iff)

text \<open>
  Claim C5. \<open>doesAnyPatternMatch\<close> is false on an empty pattern list and on an empty
  candidate string. On a non-empty list and a non-empty candidate it is true exactly when
  some pattern of the list compiles and its matcher accepts the candidate. A pattern
  \<open>q\<close> whose compilation throws counts as false in the callback, and the result for a
  list that contains \<open>q\<close> is the result for the list without it. The function returns a
  boolean: the throw of \<open>new RegExp\<close> is caught in the callback and never reaches the
  caller.
\<close>

theorem pattern_filter:
  "\<not> doesAnyPatternMatch rx [] F \<and>
   \<not> doesAnyPatternMatch rx P [] \<and>
   (P \<noteq> [] \<and> F \<noteq> [] \<longrightarrow>
      doesAnyPatternMatch rx P F =
        (\<exists>p \<in> set P. \<exists>regex. new_RegExp rx p = Inr regex \<and> regex F)) \<and>
   (new_RegExp rx q = Inl e \<longrightarrow>
      \<not> pattern_test rx F q \<and>
      doesAnyPatternMatch rx (xs @ q # ys) F = doesAnyPatternMatch rx (xs @ ys) F)"
  using doesAnyPatternMatch_iff [of rx P F] doesAnyPatternMatch_iff [of rx P "[]"]
    doesAnyPatternMatch_drop_invalid [of rx q e xs ys F] pattern_test_invalid [of rx q e F]
  by (simp add: doesAnyPatternMatch_Nil)

theorem pattern_filter_witness:
  "[js ''(x'', js ''src''] \<noteq> [] \<and> js ''src/a.ts'' \<noteq> [] \<and>
   new_RegExp example_engine (js ''(x'') = Inl (InvalidRegExp (js ''(x'')) \<and>
   doesAnyPatternMatch example_engine [js ''(x'', js ''src''] (js ''src/a.ts'') \<and>
   doesAnyPatternMatch example_engine ([] @ js ''(x'' # [js ''src'']) (js ''src/a.ts'') =
     doesAnyPatternMatch example_engine ([] @ [js ''src'']) (js ''src/a.ts'') \<and>
   (\<exists>p \<in> set [js ''(x'', js ''src'']. \<exists>regex. new_RegExp example_engine p = Inr regex
       \<and> regex (js ''src/a.ts''))"
  using pattern_filter [of example_engine "js ''src/a.ts''" "[js ''(x'', js ''src'']"
      "js ''(x''" "InvalidRegExp (js ''(x'')" "[]" "[js ''src'']"]
  by (simp add: doesAnyPatternMatch_def pattern_test_def new_RegExp_def example_engine_def
      js_def startsWith_def)

section \<open>Properties of the diff collector\<close>

text \<open>
  Each of the four loops appends, for every file that passes its checks, one item; the
  enhanced loops cap the diff.
\<close>

lemma head_loop_old_eq:
  "head_loop_old rx cfg sh files items =
     items @ map (\<lambda>F. \<lparr>item_path = F, item_context = projr (sh (head_diff_command F))\<rparr>)
       (filter (\<lambda>F. trim F \<noteq> [] \<and> in_scope rx (includeFiles cfg) (excludeFiles cfg) F
                    \<and> has_diff (sh (head_diff_command F))) files)"
proof (induction files arbitrary: items)
  case Nil
  show ?case by simp
next
  case (Cons f fs)
  show ?case
    by (cases "sh (head_diff_command f)")
      (simp_all add: Cons.IH in_scope_def has_diff_def doesAnyPatternMatch_Nil
        head_diff_command_def)
qed

lemma head_loop_eq:
  "head_loop rx cfg sh files items =
     items @ map (\<lambda>F. \<lparr>item_path = F,
                        item_context = limitDiff (projr (sh (head_diff_command F)))\<rparr>)
       (filter (\<lambda>F. trim F \<noteq> [] \<and> in_scope rx (includeFiles cfg) (excludeFiles cfg) F
                    \<and> has_diff (sh (head_diff_command F))) files)"
proof (induction files arbitrary: items)
  case Nil
  show ?case by simp
next
  case (Cons f fs)
  show ?case
    by (cases "sh (head_diff_command f)")
      (simp_all add: Cons.IH in_scope_def has_diff_def doesAnyPatternMatch_Nil
        head_diff_command_def)
qed

lemma pr_loop_old_eq:
  "pr_loop_old rx cfg b sh files items =
     items @ map (\<lambda>F. \<lparr>item_path = F, item_context = projr (sh (pr_diff_command b F))\<rparr>)
       (filter (\<lambda>F. trim F \<noteq> [] \<and> in_scope rx (includeFiles cfg) (excludeFiles cfg) F
                    \<and> has_diff (sh (pr_diff_command b F))) files)"
proof (induction files arbitrary: items)
  case Nil
  show ?case by simp
next
  case (Cons f fs)
  show ?case
    by (cases "sh (pr_diff_command b f)")
      (simp_all add: Cons.IH in_scope_def has_diff_def doesAnyPatternMatch_Nil
        pr_diff_command_def)
qed

lemma pr_loop_eq:
  "pr_loop rx cfg b sh files items =
     items @ map (\<lambda>F. \<lparr>item_path = F,
                        item_context = limitDiff (projr (sh (pr_diff_command b F)))\<rparr>)
       (filter (\<lambda>F. trim F \<noteq> [] \<and> in_scope rx (includeFiles cfg) (excludeFiles cfg) F
                    \<and> has_diff (sh (pr_diff_command b F))) files)"
proof (induction files arbitrary: items)
  case Nil
  show ?case by simp
next
  case (Cons f fs)
  show ?case
    by (cases "sh (pr_diff_command b f)")
      (simp_all add: Cons.IH in_scope_def has_diff_def doesAnyPatternMatch_Nil
        pr_diff_command_def)
qed

lemma changed_files_trim: "F \<in> set (changed_files out) \<Longrightarrow> trim F \<noteq> []"
  by (simp add: changed_files_def)

lemma filter_changed_files:
  "filter (\<lambda>F. trim F \<noteq> [] \<and> Q F) (changed_files out) = filter Q (changed_files out)"
  by (rule filter_cong) (auto dest: changed_files_trim)

text \<open>The collectors as a whole, once the listing commands have succeeded.\<close>

lemma getHeadDiffContext_eq:
  assumes "sh (js ''git diff --name-only HEAD^'') = Inr out"
  shows "getHeadDiffContext rx cfg sh =
     Inr (map (\<lambda>F. \<lparr>item_path = F,
                      item_context = limitDiff (projr (sh (head_diff_command F)))\<rparr>)
            (filter (\<lambda>F. in_scope rx (includeFiles cfg) (excludeFiles cfg) F
                         \<and> has_diff (sh (head_diff_command F))) (changed_files out)))"
  using assms by (simp add: getHeadDiffContext_def head_loop_eq filter_changed_files)

lemma getHeadDiffContext_old_eq:
  assumes "sh (js ''git diff --name-only HEAD^'') = Inr out"
  shows "getHeadDiffContext_old rx cfg sh =
     Inr (map (\<lambda>F. \<lparr>item_path = F, item_context = projr (sh (head_diff_command F))\<rparr>)
            (filter (\<lambda>F. in_scope rx (includeFiles cfg) (excludeFiles cfg) F
                         \<and> has_diff (sh (head_diff_command F))) (changed_files out)))"
  using assms by (simp add: getHeadDiffContext_old_def head_loop_old_eq filter_changed_files)

lemma getPrDiffContext_eq:
  assumes "sh (js ''git fetch origin '' @ base_ref ev) = Inr fetched"
    and "sh (pr_names_command (base_ref ev)) = Inr out"
  shows "getPrDiffContext rx cfg ev sh =
     Inr (map (\<lambda>F. \<lparr>item_path = F,
                      item_context = limitDiff (projr (sh (pr_diff_command (base_ref ev) F)))\<rparr>)
            (filter (\<lambda>F. in_scope rx (includeFiles cfg) (excludeFiles cfg) F
                         \<and> has_diff (sh (pr_diff_command (base_ref ev) F))) (changed_files out)))"
  using assms
  by (simp add: getPrDiffContext_def pr_loop_eq filter_changed_files base_ref_def
      pr_names_command_def Let_def)

lemma getPrDiffContext_old_eq:
  assumes "sh (js ''git fetch origin '' @ base_ref ev) = Inr fetched"
    and "sh (pr_names_command (base_ref ev)) = Inr out"
  shows "getPrDiffContext_old rx cfg ev sh =
     Inr (map (\<lambda>F. \<lparr>item_path = F,
                      item_context = projr (sh (pr_diff_command (base_ref ev) F))\<rparr>)
            (filter (\<lambda>F. in_scope rx (includeFiles cfg) (excludeFiles cfg) F
                         \<and> has_diff (sh (pr_diff_command (base_ref ev) F))) (changed_files out)))"
  using assms
  by (simp add: getPrDiffContext_old_def pr_loop_old_eq filter_changed_files base_ref_def
      pr_names_command_def Let_def)

text \<open>When a listing command fails, both variants fail with its error.\<close>

lemma getHeadDiffContext_fail:
  assumes "sh (js ''git diff --name-only HEAD^'') = Inl e"
  shows "getHeadDiffContext rx cfg sh = Inl e" and "getHeadDiffContext_old rx cfg sh = Inl e"
  using assms by (simp_all add: getHeadDiffContext_def getHeadDiffContext_old_def)

lemma getPrDiffContext_fail_fetch:
  assumes "sh (js ''git fetch origin '' @ base_ref ev) = Inl e"
  shows "getPrDiffContext rx cfg ev sh = Inl e" and "getPrDiffContext_old rx cfg ev sh = Inl e"
  using assms by (simp_all add: getPrDiffContext_def getPrDiffContext_old_def base_ref_def)

lemma getPrDiffContext_fail_names:
  assumes "sh (js ''git fetch origin '' @ base_ref ev) = Inr fetched"
    and "sh (pr_names_command (base_ref ev)) = Inl e"
  shows "getPrDiffContext rx cfg ev sh = Inl e" and "getPrDiffContext_old rx cfg ev sh = Inl e"
  using assms
  by (simp_all add: getPrDiffContext_def getPrDiffContext_old_def base_ref_def
      pr_names_command_def)

text \<open>
  Claim C4. Once the listing command has succeeded the collector returns, in the order
  of the listing, exactly the changed files that are in scope and have a diff, where a
  file is in scope iff (the include list is empty or matches the file) and the exclude
  list does not match it. This holds for both modes and both variants. In particular a
  file that matches the exclude list is out of scope whatever the include list says,
  and with both lists empty every file is in scope.
\<close>

theorem inclusion_policy:
  "(sh (js ''git diff --name-only HEAD^'') = Inr out \<longrightarrow>
      (\<exists>items. getHeadDiffContext rx cfg sh = Inr items \<and>
         map item_path items =
           filter (\<lambda>F. in_scope rx (includeFiles cfg) (excludeFiles cfg) F
                       \<and> has_diff (sh (head_diff_command F))) (changed_files out)) \<and>
      (\<exists>items. getHeadDiffContext_old rx cfg sh = Inr items \<and>
         map item_path items =
           filter (\<lambda>F. in_scope rx (includeFiles cfg) (excludeFiles cfg) F
                       \<and> has_diff (sh (head_diff_command F))) (changed_files out))) \<and>
   (sh (js ''git fetch origin '' @ base_ref ev) = Inr fetched \<and>
    sh (pr_names_command (base_ref ev)) = Inr out' \<longrightarrow>
      (\<exists>items. getPrDiffContext rx cfg ev sh = Inr items \<and>
         map item_path items =
           filter (\<lambda>F. in_scope rx (includeFiles cfg) (excludeFiles cfg) F
                       \<and> has_diff (sh (pr_diff_command (base_ref ev) F))) (changed_files out')) \<and>
      (\<exists>items. getPrDiffContext_old rx cfg ev sh = Inr items \<and>
         map item_path items =
           filter (\<lambda>F. in_scope rx (includeFiles cfg) (excludeFiles cfg) F
                       \<and> has_diff (sh (pr_diff_command (base_ref ev) F))) (changed_files out'))) \<and>
   (in_scope rx I E G \<longleftrightarrow> (I = [] \<or> doesAnyPatternMatch rx I G) \<and> \<not> doesAnyPatternMatch rx E G) \<and>
   (doesAnyPatternMatch rx E G \<longrightarrow> \<not> in_scope rx I E G) \<and>
   in_scope rx [] [] G"
proof -
  have scope: "in_scope rx [] [] G" "doesAnyPatternMatch rx E G \<longrightarrow> \<not> in_scope rx I E G"
    by (simp_all add: in_scope_def doesAnyPatternMatch_Nil)
  show ?thesis
    using scope
    by (simp add: getHeadDiffContext_eq getHeadDiffContext_old_eq getPrDiffContext_eq
        getPrDiffContext_old_eq comp_def) (simp add: in_scope_def)
qed

lemmas example_simps =
  example_shell_def table_shell_def example_env_def example_engine_def make_config_def
  make_config_old_def head_diff_command_def pr_diff_command_def pr_names_command_def
  base_ref_def or_else_def js_def startsWith_def

lemma example_changed_files:
  "changed_files (js ''src/a.ts\<newline>docs/b.md\<newline>'') = [js ''src/a.ts'', js ''docs/b.md'']"
  by (simp add: changed_files_def trim_def isWhiteSpace_def js_def)

lemma example_shell_names:
  "example_shell (js ''git diff --name-only HEAD^'') = Inr (js ''src/a.ts\<newline>docs/b.md\<newline>'')"
  "example_shell (js ''git fetch origin '' @ base_ref example_env) = Inr []"
  "example_shell (pr_names_command (base_ref example_env))
     = Inr (js ''src/a.ts\<newline>docs/b.md\<newline>'')"
  by (simp_all add: example_simps)

lemma example_excluded: "doesAnyPatternMatch example_engine [js ''docs''] (js ''docs/b.md'')"
  by (simp add: doesAnyPatternMatch_def pattern_test_def new_RegExp_def example_simps)

theorem inclusion_policy_witness:
  "example_shell (js ''git diff --name-only HEAD^'') = Inr (js ''src/a.ts\<newline>docs/b.md\<newline>'') \<and>
   example_shell (js ''git fetch origin '' @ base_ref example_env) = Inr [] \<and>
   example_shell (pr_names_command (base_ref example_env))
     = Inr (js ''src/a.ts\<newline>docs/b.md\<newline>'') \<and>
   doesAnyPatternMatch example_engine [js ''docs''] (js ''docs/b.md'') \<and>
   (\<exists>items. getHeadDiffContext example_engine (make_config [] [js ''docs''] False) example_shell
        = Inr items \<and>
      map item_path items =
        filter (\<lambda>F. in_scope example_engine (includeFiles (make_config [] [js ''docs''] False))
                      (excludeFiles (make_config [] [js ''docs''] False)) F
                    \<and> has_diff (example_shell (head_diff_command F)))
          (changed_files (js ''src/a.ts\<newline>docs/b.md\<newline>''))) \<and>
   (\<exists>items. getPrDiffContext example_engine (make_config [] [js ''docs''] False) example_env
        example_shell = Inr items \<and>
      map item_path items =
        filter (\<lambda>F. in_scope example_engine (includeFiles (make_config [] [js ''docs''] False))
                      (excludeFiles (make_config [] [js ''docs''] False)) F
                    \<and> has_diff (example_shell (pr_diff_command (base_ref example_env) F)))
          (changed_files (js ''src/a.ts\<newline>docs/b.md\<newline>''))) \<and>
   \<not> in_scope example_engine [js ''docs''] [js ''docs''] (js ''docs/b.md'')"
proof -
  note policy = inclusion_policy [of example_shell "js ''src/a.ts\<newline>docs/b.md\<newline>''"
      example_engine "make_config [] [js ''docs''] False" example_env "[]"
      "js ''src/a.ts\<newline>docs/b.md\<newline>''" "[js ''docs'']" "[js ''docs'']" "js ''docs/b.md''"]
  from policy show ?thesis
    by (simp add: example_shell_names example_excluded)
qed







text \<open>
  Claim C10. For the same include and exclude lists, the same environment and the same
  repository, the older and the enhanced collector fail together, with the same error,
  or return items with the same paths in the same order, in both modes.
\<close>

theorem variants_same_scope:
  "map_sum id (map item_path)
     (getPrDiffContext_old rx (make_config_old inc exc pr) ev sh) =
   map_sum id (map item_path)
     (getPrDiffContext rx (make_config inc exc pr) ev sh) \<and>
   map_sum id (map item_path)
     (getHeadDiffContext_old rx (make_config_old inc exc pr) sh) =
   map_sum id (map item_path)
     (getHeadDiffContext rx (make_config inc exc pr) sh)"
proof -
  have lists: "includeFiles (make_config_old inc exc pr) = includeFiles (make_config inc exc pr)"
    "excludeFiles (make_config_old inc exc pr) = excludeFiles (make_config inc exc pr)"
    by (simp_all add: make_config_def make_config_old_def)
  have head: "map_sum id (map item_path)
       (getHeadDiffContext_old rx (make_config_old inc exc pr) sh) =
     map_sum id (map item_path) (getHeadDiffContext rx (make_config inc exc pr) sh)"
  proof (cases "sh (js ''git diff --name-only HEAD^'')")
    case (Inl e)
    then show ?thesis by (simp add: getHeadDiffContext_fail)
  next
    case (Inr out)
    then show ?thesis
      by (simp add: getHeadDiffContext_eq getHeadDiffContext_old_eq lists comp_def)
  qed
  have pr: "map_sum id (map item_path)
       (getPrDiffContext_old rx (make_config_old inc exc pr) ev sh) =
     map_sum id (map item_path) (getPrDiffContext rx (make_config inc exc pr) ev sh)"
  proof (cases "sh (js ''git fetch origin '' @ base_ref ev)")
    case (Inl e)
    then show ?thesis by (simp add: getPrDiffContext_fail_fetch)
  next
    case fetched: (Inr fetched)
    show ?thesis
    proof (cases "sh (pr_names_command (base_ref ev))")
      case (Inl e)
      with fetched show ?thesis by (simp add: getPrDiffContext_fail_names)
    next
      case (Inr out)
      with fetched show ?thesis
        by (simp add: getPrDiffContext_eq getPrDiffContext_old_eq lists comp_def)
    qed
  qed
  from pr head show ?thesis by simp
qed

section \<open>Properties of the executor\<close>

declare withRetry_loop.simps [simp del]

declare withRetry_old_loop.simps [simp del]

lemma after_attempts_0: "after_attempts operation 0 w = w"
  by (simp add: after_attempts_def)

lemma after_attempts_Suc:
  "after_attempts operation (Suc k) w = snd (operation (after_attempts operation k w))"
  by (simp add: after_attempts_def)

lemma rejects_Error_iff:
  "rejects_Error r \<longleftrightarrow> (\<exists>e. r = Inl e \<and> read_message e = Text)"
  by (cases r) (simp_all add: rejects_Error_def)

lemma rejects_other_iff:
  "rejects_other r \<longleftrightarrow> (\<exists>e. r = Inl e \<and> read_message e \<noteq> Text)"
  by (cases r) (simp_all add: rejects_other_def)

text \<open>
  The first delay is the base delay, with and without exponential backoff; a later one
  is the exact product as long as that is below \<open>2 ^ 1024\<close>.
\<close>

lemma backoff_first: "backoff d ex (Suc 0) = Finite d"
  by (simp add: backoff_def Math_pow2_def)

lemma backoff_exact:
  assumes "0 < d" and "d * 2 ^ (a - 1) < 2 ^ 1024"
  shows "backoff d True a = Finite (d * 2 ^ (a - 1))"
proof -
  from assms(1) have "(2::nat) ^ (a - 1) \<le> d * 2 ^ (a - 1)"
    by simp
  from this assms(2) have "(2::nat) ^ (a - 1) < 2 ^ 1024"
    by (rule le_less_trans)
  then have "a - 1 < 1024"
    by (simp only: power_strict_increasing_iff one_less_numeral_iff semiring_norm)
  with assms(2) show ?thesis
    by (simp only: backoff_def Math_pow2_def multiply.simps if_True simp_thms)
qed

text \<open>One failed attempt that is not the last one: a delay, then the next attempt.\<close>

lemma withRetry_loop_fail_step:
  assumes "fst (operation w) = Inl e" and "read_message e = Text" and "attempt < maxR"
  shows "withRetry_loop cfg operation maxR ex attempt lastError (w, sl) =
     withRetry_loop cfg operation maxR ex (Suc attempt) (Some e)
       (snd (operation w), sl @ [backoff (retryDelay cfg) ex attempt])"
proof -
  obtain r w' where ow: "operation w = (r, w')"
    by (cases "operation w")
  with assms show ?thesis
    by (subst withRetry_loop.simps) (simp add: sleep_def backoff_def)
qed

text \<open>The last attempt fails: no delay, and the error is raised.\<close>

lemma withRetry_loop_fail_last:
  assumes "fst (operation w) = Inl e" and "read_message e = Text"
  shows "withRetry_loop cfg operation maxR ex maxR lastError (w, sl) =
     (Inl e, (snd (operation w), sl))"
proof -
  obtain r w' where ow: "operation w = (r, w')"
    by (cases "operation w")
  have stop: "withRetry_loop cfg operation maxR ex (Suc maxR) (Some e) (w', sl) =
      (Inl e, (w', sl))"
    by (subst withRetry_loop.simps) simp
  from ow assms show ?thesis
    by (subst withRetry_loop.simps) (simp add: stop)
qed

lemma withRetry_loop_success:
  assumes "fst (operation w) = Inr v" and "attempt \<le> maxR"
  shows "withRetry_loop cfg operation maxR ex attempt lastError (w, sl) =
     (Inr v, (snd (operation w), sl))"
proof -
  obtain r w' where ow: "operation w = (r, w')"
    by (cases "operation w")
  with assms show ?thesis
    by (subst withRetry_loop.simps) simp
qed

text \<open>
  An attempt is rejected with a value whose message is not a string: the \<open>catch\<close> block
  throws, whatever the number of the attempt. The older variant only reads the message.
\<close>

lemma withRetry_loop_throws:
  assumes "fst (operation w) = Inl e" and "read_message e \<noteq> Text" and "attempt \<le> maxR"
  shows "withRetry_loop cfg operation maxR ex attempt lastError (w, sl) =
     (Inl CannotReadProperty, (snd (operation w), sl))"
proof -
  obtain r w' where ow: "operation w = (r, w')"
    by (cases "operation w")
  with assms show ?thesis
    by (subst withRetry_loop.simps) (simp split: property.splits)
qed

lemma withRetry_old_loop_throws:
  assumes "fst (operation w) = Inl e" and "read_message e = Throws" and "attempt \<le> maxR"
  shows "withRetry_old_loop cfg operation maxR attempt lastError (w, sl) =
     (Inl CannotReadProperty, (snd (operation w), sl))"
proof -
  obtain r w' where ow: "operation w = (r, w')"
    by (cases "operation w")
  with assms show ?thesis
    by (subst withRetry_old_loop.simps) simp
qed

lemma withRetry_old_loop_success:
  assumes "fst (operation w) = Inr v" and "attempt \<le> maxR"
  shows "withRetry_old_loop cfg operation maxR attempt lastError (w, sl) =
     (Inr v, (snd (operation w), sl))"
proof -
  obtain r w' where ow: "operation w = (r, w')"
    by (cases "operation w")
  with assms show ?thesis
    by (subst withRetry_old_loop.simps) simp
qed

lemma withRetry_old_loop_fail:
  assumes "fst (operation w) = Inl e" and "read_message e \<noteq> Throws" and "attempt \<le> maxR"
  shows "withRetry_old_loop cfg operation maxR attempt lastError (w, sl) =
     withRetry_old_loop cfg operation maxR (Suc attempt) (Some e)
       (snd (operation w), if attempt < maxR then sl @ [Finite (retryDelay cfg)] else sl)"
proof -
  obtain r w' where ow: "operation w = (r, w')"
    by (cases "operation w")
  with assms show ?thesis
    by (subst withRetry_old_loop.simps) (simp add: sleep_def split: property.splits)
qed

lemma withRetry_loop_fail:
  assumes "fst (operation w) = Inl e" and "read_message e = Text" and "attempt \<le> maxR"
  shows "withRetry_loop cfg operation maxR False attempt lastError (w, sl) =
     withRetry_loop cfg operation maxR False (Suc attempt) (Some e)
       (snd (operation w), if attempt < maxR then sl @ [Finite (retryDelay cfg)] else sl)"
proof -
  obtain r w' where ow: "operation w = (r, w')"
    by (cases "operation w")
  with assms show ?thesis
    by (subst withRetry_loop.simps) (simp add: sleep_def)
qed

text \<open>\<open>k\<close> failed attempts in a row, none of them the last one.\<close>

lemma withRetry_loop_failures:
  assumes "\<forall>i<k. rejects_Error (fst (operation (after_attempts operation i w)))"
    and "attempt + k \<le> maxR"
  shows "\<exists>lastError'. withRetry_loop cfg operation maxR ex attempt lastError (w, sl) =
     withRetry_loop cfg operation maxR ex (attempt + k) lastError'
       (after_attempts operation k w,
        sl @ map (backoff (retryDelay cfg) ex) [attempt..<attempt + k])"
  using assms
proof (induction k)
  case 0
  show ?case by (auto simp: after_attempts_0)
next
  case (Suc k)
  from Suc.prems
  have "\<forall>i<k. rejects_Error (fst (operation (after_attempts operation i w)))"
    and "attempt + k \<le> maxR"
    by simp_all
  with Suc.IH obtain le where le:
    "withRetry_loop cfg operation maxR ex attempt lastError (w, sl) =
     withRetry_loop cfg operation maxR ex (attempt + k) le
       (after_attempts operation k w,
        sl @ map (backoff (retryDelay cfg) ex) [attempt..<attempt + k])"
    by blast
  from Suc.prems have "rejects_Error (fst (operation (after_attempts operation k w)))"
    by simp
  then obtain e where e: "fst (operation (after_attempts operation k w)) = Inl e"
    and msg: "read_message e = Text"
    by (auto simp: rejects_Error_iff)
  from Suc.prems have lt: "attempt + k < maxR"
    by simp
  have "withRetry_loop cfg operation maxR ex (attempt + k) le
       (after_attempts operation k w,
        sl @ map (backoff (retryDelay cfg) ex) [attempt..<attempt + k]) =
     withRetry_loop cfg operation maxR ex (Suc (attempt + k)) (Some e)
       (snd (operation (after_attempts operation k w)),
        (sl @ map (backoff (retryDelay cfg) ex) [attempt..<attempt + k])
          @ [backoff (retryDelay cfg) ex (attempt + k)])"
    using e msg lt by (rule withRetry_loop_fail_step)
  with le show ?case
    by (auto simp: after_attempts_Suc)
qed

text \<open>
  On an operation that rejects with Error objects only, the older variant is the
  enhanced one without exponential backoff.
\<close>

lemma withRetry_old_loop_eq:
  assumes ok: "\<And>s. \<not> rejects_other (fst (operation s))"
  shows "n = Suc maxR - attempt \<Longrightarrow>
     withRetry_old_loop cfg operation maxR attempt lastError (w, sl) =
     withRetry_loop cfg operation maxR False attempt lastError (w, sl)"
proof (induction n arbitrary: attempt lastError w sl)
  case 0
  then have "\<not> attempt \<le> maxR"
    by simp
  then show ?case
    by (subst withRetry_old_loop.simps, subst withRetry_loop.simps) simp
next
  case (Suc n)
  then have le: "attempt \<le> maxR" and n: "n = Suc maxR - Suc attempt"
    by simp_all
  show ?case
  proof (cases "fst (operation w)")
    case (Inr v)
    with le show ?thesis
      by (simp add: withRetry_old_loop_success withRetry_loop_success)
  next
    case (Inl e)
    with ok [of w] have msg: "read_message e = Text"
      by (simp add: rejects_other_iff)
    then have "read_message e \<noteq> Throws"
      by simp
    from Inl this le
    have "withRetry_old_loop cfg operation maxR attempt lastError (w, sl) =
        withRetry_old_loop cfg operation maxR (Suc attempt) (Some e)
          (snd (operation w), if attempt < maxR then sl @ [Finite (retryDelay cfg)] else sl)"
      by (rule withRetry_old_loop_fail)
    moreover from Inl msg le
    have "withRetry_loop cfg operation maxR False attempt lastError (w, sl) =
        withRetry_loop cfg operation maxR False (Suc attempt) (Some e)
          (snd (operation w), if attempt < maxR then sl @ [Finite (retryDelay cfg)] else sl)"
      by (rule withRetry_loop_fail)
    ultimately show ?thesis
      using Suc.IH [OF n] by simp
  qed
qed

lemma withRetry_old_eq:
  assumes "\<And>s. \<not> rejects_other (fst (operation s))"
  shows "withRetry_old cfg operation maxR (w, sl) = withRetry cfg operation maxR False (w, sl)"
  using withRetry_old_loop_eq [OF assms refl] by (simp add: withRetry_old_def withRetry_def)

lemma withRetry_first:
  assumes "1 \<le> maxR" and "fst (operation w) = Inr v"
  shows "withRetry cfg operation maxR ex (w, sl) = (Inr v, (snd (operation w), sl))"
  using assms by (simp add: withRetry_def withRetry_loop_success)

lemma withRetry_later:
  assumes "k < maxR"
    and "\<forall>i<k. rejects_Error (fst (operation (after_attempts operation i w)))"
    and "fst (operation (after_attempts operation k w)) = Inr v"
  shows "withRetry cfg operation maxR ex (w, sl) =
     (Inr v, (after_attempts operation (Suc k) w,
              sl @ map (backoff (retryDelay cfg) ex) [1..<Suc k]))"
proof -
  from assms(1) have "1 + k \<le> maxR"
    by simp
  from withRetry_loop_failures [OF assms(2) this]
  obtain le where "withRetry_loop cfg operation maxR ex 1 None (w, sl) =
     withRetry_loop cfg operation maxR ex (1 + k) le
       (after_attempts operation k w, sl @ map (backoff (retryDelay cfg) ex) [1..<1 + k])"
    by blast
  with assms(1,3) show ?thesis
    by (simp add: withRetry_def withRetry_loop_success after_attempts_Suc)
qed

lemma withRetry_exhausted:
  assumes "1 \<le> maxR"
    and "\<forall>i<maxR. rejects_Error (fst (operation (after_attempts operation i w)))"
  shows "withRetry cfg operation maxR ex (w, sl) =
     (Inl (projl (fst (operation (after_attempts operation (maxR - 1) w)))),
      (after_attempts operation maxR w,
       sl @ map (backoff (retryDelay cfg) ex) [1..<maxR]))"
proof -
  from assms
  have "\<forall>i<maxR - 1. rejects_Error (fst (operation (after_attempts operation i w)))"
    and "1 + (maxR - 1) \<le> maxR"
    by simp_all
  from withRetry_loop_failures [OF this]
  obtain le where le: "withRetry_loop cfg operation maxR ex 1 None (w, sl) =
     withRetry_loop cfg operation maxR ex (1 + (maxR - 1)) le
       (after_attempts operation (maxR - 1) w,
        sl @ map (backoff (retryDelay cfg) ex) [1..<1 + (maxR - 1)])"
    by blast
  from assms have "rejects_Error (fst (operation (after_attempts operation (maxR - 1) w)))"
    by simp
  then obtain e where e: "fst (operation (after_attempts operation (maxR - 1) w)) = Inl e"
    and msg: "read_message e = Text"
    by (auto simp: rejects_Error_iff)
  from assms(1) have m: "1 + (maxR - 1) = maxR" "Suc (maxR - 1) = maxR"
    by simp_all
  from le have le': "withRetry_loop cfg operation maxR ex 1 None (w, sl) =
     withRetry_loop cfg operation maxR ex maxR le
       (after_attempts operation (maxR - 1) w,
        sl @ map (backoff (retryDelay cfg) ex) [1..<maxR])"
    by (simp only: m)
  have "withRetry_loop cfg operation maxR ex maxR le
       (after_attempts operation (maxR - 1) w,
        sl @ map (backoff (retryDelay cfg) ex) [1..<maxR]) =
     (Inl e, (snd (operation (after_attempts operation (maxR - 1) w)),
              sl @ map (backoff (retryDelay cfg) ex) [1..<maxR]))"
    using e msg by (rule withRetry_loop_fail_last)
  moreover have "snd (operation (after_attempts operation (maxR - 1) w)) =
      after_attempts operation maxR w"
    using after_attempts_Suc [of operation "maxR - 1" w] by (simp only: m)
  ultimately show ?thesis
    using le' e by (simp add: withRetry_def)
qed

text \<open>
  Claim C3, for operations whose rejections are Error objects. Let \<open>maxR \<ge> 1\<close>. If the
  first attempt succeeds, \<open>withRetry\<close> returns its result and asks for no delay. If the
  first \<open>k < maxR\<close> attempts are rejected with Error objects and the next one succeeds,
  \<open>withRetry\<close> returns that result after exactly \<open>k\<close> delays. If all \<open>maxR\<close> attempts are
  rejected with Error objects, \<open>withRetry\<close> raises the error of the last attempt after
  exactly \<open>maxR - 1\<close> delays. The delay after the failed attempt number \<open>a\<close> is
  \<open>retryDelay\<close> without exponential backoff; with it, the delay is
  \<open>retryDelay * 2 ^ (a - 1)\<close> as long as \<open>retryDelay\<close> is positive and this product is below
  \<open>2 ^ 1024\<close>. On an operation that rejects with Error objects only, the older variant is
  the enhanced one without exponential backoff.
\<close>

theorem withRetry_contract:
  "1 \<le> maxR \<longrightarrow>
     (fst (operation w) = Inr v \<longrightarrow>
        withRetry cfg operation maxR ex (w, sl) = (Inr v, (snd (operation w), sl))) \<and>
     (k < maxR \<and> (\<forall>i<k. rejects_Error (fst (operation (after_attempts operation i w)))) \<and>
      fst (operation (after_attempts operation k w)) = Inr v' \<longrightarrow>
        (\<exists>delays.
           withRetry cfg operation maxR ex (w, sl) =
             (Inr v', (after_attempts operation (Suc k) w, sl @ delays)) \<and>
           length delays = k \<and>
           (\<forall>j<k. delays ! j = backoff (retryDelay cfg) ex (Suc j)))) \<and>
     ((\<forall>i<maxR. rejects_Error (fst (operation (after_attempts operation i w)))) \<longrightarrow>
        (\<exists>delays.
           withRetry cfg operation maxR ex (w, sl) =
             (Inl (projl (fst (operation (after_attempts operation (maxR - 1) w)))),
              (after_attempts operation maxR w, sl @ delays)) \<and>
           length delays = maxR - 1 \<and>
           (\<forall>j<maxR - 1. delays ! j = backoff (retryDelay cfg) ex (Suc j)))) \<and>
     (0 < d \<and> d * 2 ^ (a - 1) < 2 ^ 1024 \<longrightarrow> backoff d True a = Finite (d * 2 ^ (a - 1))) \<and>
     backoff d False a = Finite d \<and>
     ((\<forall>s. \<not> rejects_other (fst (operation s))) \<longrightarrow>
        withRetry_old cfg operation maxR (w, sl) = withRetry cfg operation maxR False (w, sl))"
proof (intro impI conjI)
  assume "1 \<le> maxR" and "fst (operation w) = Inr v"
  then show "withRetry cfg operation maxR ex (w, sl) = (Inr v, (snd (operation w), sl))"
    by (rule withRetry_first)
next
  assume "k < maxR \<and>
      (\<forall>i<k. rejects_Error (fst (operation (after_attempts operation i w)))) \<and>
      fst (operation (after_attempts operation k w)) = Inr v'"
  then have "withRetry cfg operation maxR ex (w, sl) =
     (Inr v', (after_attempts operation (Suc k) w,
               sl @ map (backoff (retryDelay cfg) ex) [1..<Suc k]))"
    by (elim conjE) (rule withRetry_later)
  moreover have "length (map (backoff (retryDelay cfg) ex) [1..<Suc k]) = k"
    by (simp del: upt_Suc)
  moreover have "\<forall>j<k. map (backoff (retryDelay cfg) ex) [1..<Suc k] ! j =
      backoff (retryDelay cfg) ex (Suc j)"
    by (simp del: upt_Suc)
  ultimately show "\<exists>delays.
      withRetry cfg operation maxR ex (w, sl) =
        (Inr v', (after_attempts operation (Suc k) w, sl @ delays)) \<and>
      length delays = k \<and>
      (\<forall>j<k. delays ! j = backoff (retryDelay cfg) ex (Suc j))"
    by blast
next
  assume "1 \<le> maxR"
    and "\<forall>i<maxR. rejects_Error (fst (operation (after_attempts operation i w)))"
  then have "withRetry cfg operation maxR ex (w, sl) =
     (Inl (projl (fst (operation (after_attempts operation (maxR - 1) w)))),
      (after_attempts operation maxR w,
       sl @ map (backoff (retryDelay cfg) ex) [1..<maxR]))"
    by (rule withRetry_exhausted)
  moreover have "length (map (backoff (retryDelay cfg) ex) [1..<maxR]) = maxR - 1"
    by simp
  moreover have "\<forall>j<maxR - 1. map (backoff (retryDelay cfg) ex) [1..<maxR] ! j =
      backoff (retryDelay cfg) ex (Suc j)"
    by (simp add: nth_upt)
  ultimately show "\<exists>delays.
      withRetry cfg operation maxR ex (w, sl) =
        (Inl (projl (fst (operation (after_attempts operation (maxR - 1) w)))),
         (after_attempts operation maxR w, sl @ delays)) \<and>
      length delays = maxR - 1 \<and>
      (\<forall>j<maxR - 1. delays ! j = backoff (retryDelay cfg) ex (Suc j))"
    by blast
next
  assume "0 < d \<and> d * 2 ^ (a - 1) < 2 ^ 1024"
  then show "backoff d True a = Finite (d * 2 ^ (a - 1))"
    by (elim conjE) (rule backoff_exact)
next
  show "backoff d False a = Finite d"
    by (simp add: backoff_def)
next
  assume "\<forall>s. \<not> rejects_other (fst (operation s))"
  then show "withRetry_old cfg operation maxR (w, sl) =
      withRetry cfg operation maxR False (w, sl)"
    by (intro withRetry_old_eq) simp
qed

lemma after_attempts_example: "after_attempts example_operation i w = w + i"
  by (induction i) (simp_all add: after_attempts_0 after_attempts_Suc example_operation_def)

lemma example_operation_fails:
  "\<forall>i<2. rejects_Error (fst (example_operation (after_attempts example_operation i 0)))"
  by (simp add: after_attempts_example example_operation_def rejects_Error_def)

lemma example_operation_succeeds:
  "fst (example_operation (after_attempts example_operation 2 0)) = Inr 2"
  "fst (example_operation 2) = Inr 2"
  by (simp_all add: after_attempts_example example_operation_def)

lemma example_operation_Errors: "\<forall>s. \<not> rejects_other (fst (example_operation s))"
  by (simp add: example_operation_def rejects_other_def)

theorem withRetry_contract_witness:
  "(1::nat) \<le> 3 \<and> fst (example_operation 2) = Inr 2 \<and>
   withRetry (make_config [] [] False) example_operation 3 True (2, [])
     = (Inr 2, (snd (example_operation 2), [])) \<and>
   (2::nat) < 3 \<and>
   rejects_Error (fst (example_operation (after_attempts example_operation 0 0))) \<and>
   rejects_Error (fst (example_operation (after_attempts example_operation 1 0))) \<and>
   fst (example_operation (after_attempts example_operation 2 0)) = Inr 2 \<and>
   (\<exists>delays.
      withRetry (make_config [] [] False) example_operation 3 True (0, [])
        = (Inr 2, (after_attempts example_operation (Suc 2) 0, [] @ delays)) \<and>
      length delays = 2 \<and>
      (\<forall>j<2. delays ! j = backoff (retryDelay (make_config [] [] False)) True (Suc j))) \<and>
   (1::nat) \<le> 2 \<and>
   (\<exists>delays.
      withRetry (make_config [] [] False) example_operation 2 True (0, [])
        = (Inl (projl (fst (example_operation (after_attempts example_operation (2 - 1) 0)))),
           (after_attempts example_operation 2 0, [] @ delays)) \<and>
      length delays = 2 - 1 \<and>
      (\<forall>j<2 - 1. delays ! j = backoff (retryDelay (make_config [] [] False)) True (Suc j))) \<and>
   (0::nat) < 5000 \<and> (5000::nat) * 2 ^ (2 - 1) < 2 ^ 1024 \<and>
   backoff 5000 True 2 = Finite (5000 * 2 ^ (2 - 1)) \<and>
   (\<forall>s. \<not> rejects_other (fst (example_operation s))) \<and>
   withRetry_old (make_config [] [] False) example_operation 3 (0, [])
     = withRetry (make_config [] [] False) example_operation 3 False (0, [])"
proof -
  let ?cfg = "make_config [] [] False"
  have bounds: "(1::nat) \<le> 3" "(2::nat) < 3" "(1::nat) \<le> 2"
    by simp_all
  have product: "(0::nat) < 5000" "(5000::nat) * 2 ^ (2 - 1) < 2 ^ 1024"
    by simp_all
  have first: "withRetry ?cfg example_operation 3 True (2, [])
      = (Inr 2, (snd (example_operation 2), []))"
    using withRetry_contract [where maxR = 3 and operation = example_operation and w = 2
        and v = 2 and cfg = ?cfg and ex = True and sl = "[]" and k = 2 and v' = 2
        and d = 5000 and a = 2]
      bounds example_operation_succeeds
    by blast
  have later: "\<exists>delays.
      withRetry ?cfg example_operation 3 True (0, [])
        = (Inr 2, (after_attempts example_operation (Suc 2) 0, [] @ delays)) \<and>
      length delays = 2 \<and>
      (\<forall>j<2. delays ! j = backoff (retryDelay ?cfg) True (Suc j))"
    using withRetry_contract [where maxR = 3 and operation = example_operation and w = 0
        and k = 2 and v = 2 and v' = 2 and cfg = ?cfg and ex = True and sl = "[]"
        and d = 5000 and a = 2]
      bounds example_operation_fails example_operation_succeeds
    by blast
  have never: "\<exists>delays.
      withRetry ?cfg example_operation 2 True (0, [])
        = (Inl (projl (fst (example_operation (after_attempts example_operation (2 - 1) 0)))),
           (after_attempts example_operation 2 0, [] @ delays)) \<and>
      length delays = 2 - 1 \<and>
      (\<forall>j<2 - 1. delays ! j = backoff (retryDelay ?cfg) True (Suc j))"
    using withRetry_contract [where maxR = 2 and operation = example_operation and w = 0
        and k = 2 and v = 2 and v' = 2 and cfg = ?cfg and ex = True and sl = "[]"
        and d = 5000 and a = 2]
      bounds example_operation_fails
    by blast
  have exact: "backoff 5000 True 2 = Finite (5000 * 2 ^ (2 - 1))"
    using withRetry_contract [where maxR = 3 and operation = example_operation and w = 0
        and k = 2 and v = 2 and v' = 2 and cfg = ?cfg and ex = True and sl = "[]"
        and d = 5000 and a = 2]
      bounds product
    by blast
  have older: "withRetry_old ?cfg example_operation 3 (0, [])
      = withRetry ?cfg example_operation 3 False (0, [])"
    using withRetry_contract [where maxR = 3 and operation = example_operation and w = 0
        and k = 2 and v = 2 and v' = 2 and cfg = ?cfg and ex = True and sl = "[]"
        and d = 5000 and a = 2]
      bounds example_operation_Errors
    by blast
  have each: "rejects_Error (fst (example_operation (after_attempts example_operation 0 0)))"
    "rejects_Error (fst (example_operation (after_attempts example_operation 1 0)))"
    using example_operation_fails by simp_all
  from bounds product first later never exact older each example_operation_succeeds
    example_operation_Errors
  show ?thesis
    by (intro conjI) assumption+
qed

text \<open>The second of these runs, evaluated: two delays, 5000 and 10000 milliseconds.\<close>

lemma withRetry_example:
  "withRetry (make_config [] [] False) example_operation 3 True (0, [])
     = (Inr 2, (3, [Finite 5000, Finite 10000]))"
  using withRetry_later [of 2 3 example_operation 0 2 "make_config [] [] False" True "[]"]
    example_operation_fails example_operation_succeeds
  by (simp add: after_attempts_example backoff_def Math_pow2_def make_config_def upt_rec)

lemma after_attempts_failing: "after_attempts failing_operation i w = w + i"
  by (induction i) (simp_all add: after_attempts_0 after_attempts_Suc failing_operation_def)

lemma failing_operation_delays:
  "snd (snd (withRetry cfg failing_operation 1014 True (0, []))) =
     map (backoff (retryDelay cfg) True) [1..<1014]"
proof -
  have "\<forall>i<1014. rejects_Error
      (fst (failing_operation (after_attempts failing_operation i 0)))"
    by (simp add: failing_operation_def rejects_Error_def)
  with withRetry_exhausted [of 1014 failing_operation 0 cfg True "[]"]
  show ?thesis
    by simp
qed

text \<open>
  An operation whose first call rejects with \<open>undefined\<close> and whose second call would
  succeed fails once and then succeeds, and three attempts are allowed. \<open>withRetry\<close> makes
  one attempt, asks for no delay and raises a TypeError, in both variants: the \<open>catch\<close>
  block cannot read the message of \<open>undefined\<close>. When the first call rejects with a
  string, the enhanced variant ends in the same way, while the older one retries. And
  when every call is rejected with an Error object, the delay after attempt 1013 of 1014
  is \<open>Infinity\<close>, not \<open>5000 * 2 ^ 1012\<close>.
\<close>

theorem withRetry_rejected_undefined:
  "fst (undefined_operation 0) = Inl ThrownUndefined \<and>
   fst (undefined_operation 1) = Inr 1 \<and>
   withRetry (make_config [] [] False) undefined_operation 3 True (0, [])
     = (Inl CannotReadProperty, (1, [])) \<and>
   withRetry_old (make_config_old [] [] False) undefined_operation 3 (0, [])
     = (Inl CannotReadProperty, (1, [])) \<and>
   fst (string_operation 0) = Inl (ThrownString (js ''down'')) \<and>
   withRetry (make_config [] [] False) string_operation 3 False (0, [])
     = (Inl CannotReadProperty, (1, [])) \<and>
   withRetry_old (make_config_old [] [] False) string_operation 3 (0, [])
     = (Inr 1, (2, [Finite 2000])) \<and>
   snd (snd (withRetry (make_config [] [] False) failing_operation 1014 True (0, []))) ! 1012
     = Infinity"
proof -
  let ?old = "make_config_old [] [] False"
  have delay: "retryDelay ?old = 2000"
    by (simp add: make_config_old_def)
  have "withRetry_old_loop ?old string_operation 3 (Suc 0) None (0, []) =
      withRetry_old_loop ?old string_operation 3 (Suc (Suc 0))
        (Some (ThrownString (js ''down''))) (Suc 0, [Finite 2000])"
    using withRetry_old_loop_fail [of string_operation 0 "ThrownString (js ''down'')" "Suc 0" 3
        ?old None "[]"]
    by (simp add: string_operation_def delay)
  moreover have "withRetry_old_loop ?old string_operation 3 (Suc (Suc 0))
        (Some (ThrownString (js ''down''))) (Suc 0, [Finite 2000]) =
      (Inr (Suc 0), (Suc (Suc 0), [Finite 2000]))"
    using withRetry_old_loop_success [of string_operation "Suc 0" "Suc 0" "Suc (Suc 0)" 3
        ?old "Some (ThrownString (js ''down''))" "[Finite 2000]"]
    by (simp add: string_operation_def)
  ultimately have "withRetry_old ?old string_operation 3 (0, [])
      = (Inr 1, (2, [Finite 2000]))"
    by (simp add: withRetry_old_def numeral_2_eq_2)
  moreover have "(4096::nat) * 2 ^ 1012 \<le> 5000 * 2 ^ 1012"
    by (rule mult_le_mono1) simp
  then have "\<not> (5000::nat) * 2 ^ 1012 < 2 ^ 1024"
    by simp
  then have "backoff 5000 True 1013 = Infinity"
    by (simp add: backoff_def Math_pow2_def)
  then have "snd (snd (withRetry (make_config [] [] False) failing_operation 1014 True
      (0, []))) ! 1012 = Infinity"
    by (simp add: failing_operation_delays nth_upt make_config_def del: upt_Suc)
  ultimately show ?thesis
    using withRetry_loop_throws [of undefined_operation 0 ThrownUndefined 1 3
        "make_config [] [] False" True None "[]"]
      withRetry_old_loop_throws [of undefined_operation 0 ThrownUndefined 1 3
        "make_config_old [] [] False" None "[]"]
      withRetry_loop_throws [of string_operation 0 "ThrownString (js ''down'')" 1 3
        "make_config [] [] False" False None "[]"]
    by (simp add: withRetry_def withRetry_old_def undefined_operation_def
        string_operation_def)
qed

section \<open>Properties of the comment publisher\<close>

text \<open>
  Claim C8. When the pull-request number is unset or empty, \<open>pushComments\<close> returns the
  object \<open>{id: "local-log", success: true}\<close> for every comment body and leaves the state
  as it was: no request is posted and no delay is asked for. When the number is set but
  the repository or the token is unset or empty, \<open>pushComments\<close> raises the
  configuration error, again without touching the state, so nothing was posted and nothing
  retried. Both variants behave so.
\<close>

theorem publisher_without_target:
  "(falsy_var (INPUT_PULL_REQUEST_NUMBER ev) \<longrightarrow>
      pushComments cfg ev message st =
        (Inr (JObj [(js ''id'', JStr (js ''local-log'')), (js ''success'', JBool True)]), st) \<and>
      pushComments_old cfg ev message st =
        (Inr (JObj [(js ''id'', JStr (js ''local-log'')), (js ''success'', JBool True)]), st)) \<and>
   (\<not> falsy_var (INPUT_PULL_REQUEST_NUMBER ev) \<and>
    (falsy_var (INPUT_REPOSITORY ev) \<or> falsy_var (INPUT_TOKEN ev)) \<longrightarrow>
      pushComments cfg ev message st = (Inl MissingEnvironment, st) \<and>
      pushComments_old cfg ev message st = (Inl MissingEnvironment, st))"
  by (simp add: pushComments_def pushComments_old_def local_log_def)

theorem publisher_without_target_witness:
  "falsy_var (INPUT_PULL_REQUEST_NUMBER example_env) \<and>
   pushComments (make_config [] [] False) example_env (js ''LGTM'') (scripted_net [], []) =
     (Inr (JObj [(js ''id'', JStr (js ''local-log'')), (js ''success'', JBool True)]),
      (scripted_net [], [])) \<and>
   \<not> falsy_var (INPUT_PULL_REQUEST_NUMBER
        (example_env\<lparr>INPUT_PULL_REQUEST_NUMBER := Some (js ''7'')\<rparr>)) \<and>
   falsy_var (INPUT_REPOSITORY (example_env\<lparr>INPUT_PULL_REQUEST_NUMBER := Some (js ''7'')\<rparr>)) \<and>
   pushComments (make_config [] [] False)
       (example_env\<lparr>INPUT_PULL_REQUEST_NUMBER := Some (js ''7'')\<rparr>) (js ''LGTM'')
       (scripted_net [], []) =
     (Inl MissingEnvironment, (scripted_net [], []))"
proof -
  have unset: "falsy_var (INPUT_PULL_REQUEST_NUMBER example_env)"
    by (simp add: falsy_var_def example_env_def)
  have set: "\<not> falsy_var (INPUT_PULL_REQUEST_NUMBER
        (example_env\<lparr>INPUT_PULL_REQUEST_NUMBER := Some (js ''7'')\<rparr>))"
    "falsy_var (INPUT_REPOSITORY (example_env\<lparr>INPUT_PULL_REQUEST_NUMBER := Some (js ''7'')\<rparr>))"
    by (simp_all add: falsy_var_def example_env_def js_def)
  from unset set
    publisher_without_target [of example_env "make_config [] [] False" "js ''LGTM''"
      "(scripted_net [], [])"]
    publisher_without_target [of "example_env\<lparr>INPUT_PULL_REQUEST_NUMBER := Some (js ''7'')\<rparr>"
      "make_config [] [] False" "js ''LGTM''" "(scripted_net [], [])"]
  show ?thesis
    by blast
qed

section \<open>Properties of the text-generation client\<close>

lemma length_js [simp]: "length (js s) = length s"
  by (simp add: js_def)

lemma truncatePrompt_short: "int (length p) \<le> L \<Longrightarrow> truncatePrompt p L = p"
  by (simp add: truncatePrompt_def)

lemma truncatePrompt_length:
  assumes "50 \<le> L"
  shows "int (length (truncatePrompt p L)) \<le> L"
proof -
  have "int (length (substring0 p (L - 50) @ js ''\<newline>\<newline>[... truncated for length ...]'')) \<le> L"
    using assms by (simp add: substring0_def)
  then show ?thesis
    by (simp add: truncatePrompt_def Let_def)
qed

text \<open>
  The executor with two attempts, as the client calls it, on an operation that rejects
  with Error objects only: one attempt, and after a failure one delay and a second
  attempt.
\<close>

lemma withRetry_two:
  assumes ok: "\<And>s. \<not> rejects_other (fst (operation s))"
  shows "withRetry cfg operation 2 ex (w, sl) =
     (case operation w of
        (Inr v, w1) \<Rightarrow> (Inr v, (w1, sl))
      | (Inl e, w1) \<Rightarrow>
          (fst (operation w1), (snd (operation w1), sl @ [Finite (retryDelay cfg)])))"
proof -
  obtain r w1 where o1: "operation w = (r, w1)"
    by (cases "operation w")
  obtain r' w2 where o2: "operation w1 = (r', w2)"
    by (cases "operation w1")
  have delay: "backoff (retryDelay cfg) ex (Suc 0) = Finite (retryDelay cfg)"
    by (rule backoff_first)
  show ?thesis
  proof (cases r)
    case (Inr v)
    with o1 show ?thesis
      by (simp add: withRetry_def withRetry_loop_success)
  next
    case (Inl e)
    with o1 ok [of w] have msg: "read_message e = Text"
      by (simp add: rejects_other_iff)
    from Inl o1 msg have step:
      "withRetry_loop cfg operation (Suc (Suc 0)) ex (Suc 0) None (w, sl) =
        withRetry_loop cfg operation (Suc (Suc 0)) ex (Suc (Suc 0)) (Some e)
          (w1, sl @ [Finite (retryDelay cfg)])"
      using withRetry_loop_fail_step [of operation w e "Suc 0" "Suc (Suc 0)" cfg ex None sl]
      by (simp add: delay)
    have last: "withRetry_loop cfg operation (Suc (Suc 0)) ex (Suc (Suc 0)) (Some e)
          (w1, sl @ [Finite (retryDelay cfg)]) =
        (r', (w2, sl @ [Finite (retryDelay cfg)]))"
    proof (cases r')
      case (Inl e')
      with o2 ok [of w1] have "read_message e' = Text"
        by (simp add: rejects_other_iff)
      with Inl o2 show ?thesis
        using withRetry_loop_fail_last [of operation w1 e' cfg "Suc (Suc 0)" ex "Some e"]
        by simp
    next
      case (Inr v)
      with o2 show ?thesis
        using withRetry_loop_success [of operation w1 v "Suc (Suc 0)" "Suc (Suc 0)" cfg ex
            "Some e"]
        by simp
    qed
    from step last o1 o2 Inl show ?thesis
      by (simp add: withRetry_def numeral_2_eq_2)
  qed
qed

text \<open>
  An attempt of the client is rejected with an Error object or not at all: by \<open>post\<close>, or
  by one of the checks on the body.
\<close>

lemma generate_operation_rejects: "\<not> rejects_other (fst (generate_operation R w))"
  by (simp add: generate_operation_def post_def validate_response_def rejects_other_def
      split: sum.splits)

lemma generate_two:
  "withRetry cfg (generate_operation R) 2 ex (w, sl) =
     (case generate_operation R w of
        (Inr v, w1) \<Rightarrow> (Inr v, (w1, sl))
      | (Inl e, w1) \<Rightarrow>
          (fst (generate_operation R w1),
           (snd (generate_operation R w1), sl @ [Finite (retryDelay cfg)])))"
  by (rule withRetry_two) (rule generate_operation_rejects)

lemma posted_generate_operation:
  "posted (snd (generate_operation R w)) = posted w @ [R]"
  by (simp add: generate_operation_def post_def split: sum.splits)

lemma aiGenerate_posted:
  "\<exists>n. posted (fst (snd (aiGenerate cfg g host token p mdl sys st))) =
     posted (fst st) @ replicate n (generate_request cfg g host token p mdl sys)"
proof (cases "trim p = []")
  case True
  then have "posted (fst (snd (aiGenerate cfg g host token p mdl sys st))) =
      posted (fst st) @ replicate 0 (generate_request cfg g host token p mdl sys)"
    by (simp add: aiGenerate_def)
  then show ?thesis ..
next
  case False
  let ?R = "generate_request cfg g host token p mdl sys"
  obtain w sl where st: "st = (w, sl)"
    by (cases st)
  obtain r w1 where o1: "generate_operation ?R w = (r, w1)"
    by (cases "generate_operation ?R w")
  have p1: "posted w1 = posted w @ [?R]"
    using posted_generate_operation [of ?R w] o1 by simp
  show ?thesis
  proof (cases r)
    case (Inr v)
    with False st o1 p1
    have "posted (fst (snd (aiGenerate cfg g host token p mdl sys st))) =
        posted (fst st) @ replicate 1 ?R"
      by (simp add: aiGenerate_def generate_two)
    then show ?thesis ..
  next
    case (Inl e)
    with False st o1 p1 posted_generate_operation [of ?R w1]
    have "posted (fst (snd (aiGenerate cfg g host token p mdl sys st))) =
        posted (fst st) @ replicate 2 ?R"
      by (simp add: aiGenerate_def generate_two)
        (simp add: numeral_2_eq_2)
    then show ?thesis ..
  qed
qed

text \<open>
  Claim C9. For a limit \<open>L \<ge> 50\<close>, \<open>truncatePrompt p L\<close> has at most \<open>L\<close> code units, and
  it is \<open>p\<close> itself when \<open>p\<close> has at most \<open>L\<close>. Every request the enhanced \<open>aiGenerate\<close>
  posts is the same request, whose prompt is the truncated, trimmed diff text; with the
  configured limit of 8000 that prompt has at most 8000 code units, whatever the length
  of the diff text that the collector stored.
\<close>

theorem prompt_bound:
  "(50 \<le> L \<longrightarrow> int (length (truncatePrompt p L)) \<le> L) \<and>
   (int (length p) \<le> L \<longrightarrow> truncatePrompt p L = p) \<and>
   maxPromptLength (make_config inc exc pr) = 8000 \<and>
   (\<exists>n. posted (fst (snd (aiGenerate (make_config inc exc pr) g host token d mdl sys st))) =
      posted (fst st) @
        replicate n (generate_request (make_config inc exc pr) g host token d mdl sys)) \<and>
   prompt (req_body (generate_request (make_config inc exc pr) g host token d mdl sys)) =
     truncatePrompt (trim d) 8000 \<and>
   length (prompt (req_body (generate_request (make_config inc exc pr) g host token d mdl sys)))
     \<le> 8000"
proof -
  have "int (length (truncatePrompt (trim d) 8000)) \<le> 8000"
    by (rule truncatePrompt_length) simp
  then have "length (truncatePrompt (trim d) 8000) \<le> 8000"
    by simp
  then show ?thesis
    using aiGenerate_posted [of "make_config inc exc pr" g host token d mdl sys st]
    by (simp add: truncatePrompt_length truncatePrompt_short generate_request_def
        requestData_def make_config_def)
qed

theorem prompt_bound_witness:
  "(50 :: int) \<le> 60 \<and>
   int (length (truncatePrompt (replicate 100 0x61) 60)) \<le> 60 \<and>
   int (length (js ''+x'')) \<le> 60 \<and> truncatePrompt (js ''+x'') 60 = js ''+x''"
proof -
  have "(50 :: int) \<le> 60" and "int (length (js ''+x'')) \<le> 60"
    by simp_all
  with prompt_bound [of 60 "replicate 100 0x61"] prompt_bound [of 60 "js ''+x''"]
  show ?thesis
    by blast
qed

text \<open>The first of these, evaluated: 10 code units of the prompt and the 32 of the marker.\<close>

lemma truncatePrompt_example:
  "truncatePrompt (replicate 100 0x61) 60 =
     replicate 10 0x61 @ js ''\<newline>\<newline>[... truncated for length ...]''"
proof -
  have "length (split_on 0x0A (replicate n (0x61 :: 16 word))) = 1" for n
    by (induction n) (auto split: list.splits)
  then show ?thesis
    by (simp add: truncatePrompt_def substring0_def Let_def)
qed

lemma validate_response_fails:
  "isl (validate_response body) \<longleftrightarrow>
     \<not> truthy body \<or> truthy_opt (field body (js ''error'')) \<or>
     truthy_opt (field body (js ''detail'')) \<or> \<not> truthy_opt (field body (js ''response''))"
  by (simp add: validate_response_def)

lemma validate_response_whole: "validate_response body = Inr body' \<Longrightarrow> body' = body"
  by (simp add: validate_response_def split: if_splits)

text \<open>
  Three bodies that the checks refuse: no body, a body with an error message, and a body
  whose \<open>response\<close> is missing or is the empty string.
\<close>

lemma validate_response_absent: "validate_response JNull = Inl EmptyResponse"
  by (simp add: validate_response_def)

lemma validate_response_error:
  assumes "truthy body" and "field body (js ''error'') = Some (JStr m)" and "m \<noteq> []"
  shows "validate_response body = Inl (ServiceError (JStr m))"
  using assms by (simp add: validate_response_def)

lemma validate_response_no_text:
  assumes "field body (js ''response'') = None \<or> field body (js ''response'') = Some (JStr [])"
  shows "isl (validate_response body)"
  using assms by (auto simp: validate_response_fails)

lemma generate_operation_result:
  "fst (generate_operation R w) =
     (case reply w (length (posted w)) R of
        Inl m \<Rightarrow> Inl (External m)
      | Inr body \<Rightarrow> validate_response body)"
  by (simp add: generate_operation_def post_def split: sum.splits)

lemma aiGenerate_attempts:
  assumes "trim p \<noteq> []"
  shows "aiGenerate cfg g host token p mdl sys (w, sl) =
     (let R = generate_request cfg g host token p mdl sys;
          first = generate_operation R w;
          second = generate_operation R (snd first)
      in if isl (fst first) then (fst second, (snd second, sl @ [Finite (retryDelay cfg)]))
         else (fst first, (snd first, sl)))"
proof -
  let ?R = "generate_request cfg g host token p mdl sys"
  obtain r w1 where o1: "generate_operation ?R w = (r, w1)"
    by (cases "generate_operation ?R w")
  from assms o1 show ?thesis
    by (cases r)
      (simp_all add: aiGenerate_def generate_two Let_def)
qed

lemma aiGenerate_old_attempts:
  assumes "trim p \<noteq> []"
  shows "aiGenerate_old cfg g host token p mdl sys (w, sl) =
     (let R = generate_request_old g host token p mdl sys;
          first = generate_operation R w;
          second = generate_operation R (snd first)
      in if isl (fst first) then (fst second, (snd second, sl @ [Finite (retryDelay cfg)]))
         else (fst first, (snd first, sl)))"
proof -
  let ?R = "generate_request_old g host token p mdl sys"
  obtain r w1 where o1: "generate_operation ?R w = (r, w1)"
    by (cases "generate_operation ?R w")
  from assms o1 show ?thesis
    by (cases r)
      (simp_all add: aiGenerate_old_def withRetry_old_eq [OF generate_operation_rejects]
        generate_two Let_def)
qed

text \<open>
  Claim C7, with the conditions on the body stated as the code tests them. When the diff
  text is empty after trimming, \<open>aiGenerate\<close> raises at once and leaves the state as it
  was: the executor is not entered, nothing is posted and no delay is asked for.
  Otherwise it runs the executor with two attempts. An attempt posts the request and
  checks the body, and it fails when the request is rejected or when the body is absent
  (not truthy: \<open>null\<close>, \<open>false\<close>, \<open>0\<close>, the empty string), has an \<open>error\<close> or a \<open>detail\<close>
  property with a truthy value, or has no \<open>response\<close> property with a truthy value (the
  property is missing, \<open>null\<close>, \<open>false\<close>, \<open>0\<close> or the empty string). A body that passes
  the checks is handed on whole. Since the checks run inside the attempt, a body that
  fails them is retried like a rejected request: after a failed first attempt there is
  one delay of \<open>retryDelay\<close> and a second attempt, whose outcome is the outcome of
  \<open>aiGenerate\<close>. Both variants behave so.
\<close>

theorem generation_client:
  "(trim p = [] \<longrightarrow>
      aiGenerate cfg g host token p mdl sys st = (Inl EmptyPrompt, st) \<and>
      aiGenerate_old cfg' g host token p mdl sys st = (Inl EmptyPrompt, st)) \<and>
   (isl (validate_response body) \<longleftrightarrow>
      \<not> truthy body \<or> truthy_opt (field body (js ''error'')) \<or>
      truthy_opt (field body (js ''detail'')) \<or> \<not> truthy_opt (field body (js ''response''))) \<and>
   (validate_response body = Inr body' \<longrightarrow> body' = body) \<and>
   fst (generate_operation R w) =
     (case reply w (length (posted w)) R of
        Inl m \<Rightarrow> Inl (External m)
      | Inr b \<Rightarrow> validate_response b) \<and>
   (trim p \<noteq> [] \<longrightarrow>
      aiGenerate cfg g host token p mdl sys (w, sl) =
        (let R = generate_request cfg g host token p mdl sys;
             first = generate_operation R w;
             second = generate_operation R (snd first)
         in if isl (fst first) then (fst second, (snd second, sl @ [Finite (retryDelay cfg)]))
            else (fst first, (snd first, sl))) \<and>
      aiGenerate_old cfg' g host token p mdl sys (w, sl) =
        (let R = generate_request_old g host token p mdl sys;
             first = generate_operation R w;
             second = generate_operation R (snd first)
         in if isl (fst first) then (fst second, (snd second, sl @ [Finite (retryDelay cfg')]))
            else (fst first, (snd first, sl))))"
proof -
  have empty: "trim p = [] \<longrightarrow>
      aiGenerate cfg g host token p mdl sys st = (Inl EmptyPrompt, st) \<and>
      aiGenerate_old cfg' g host token p mdl sys st = (Inl EmptyPrompt, st)"
    by (simp add: aiGenerate_def aiGenerate_old_def)
  from empty validate_response_fails [of body] validate_response_whole [of body body']
    generate_operation_result [of R w]
    aiGenerate_attempts [of p cfg g host token mdl sys w sl]
    aiGenerate_old_attempts [of p cfg' g host token mdl sys w sl]
  show ?thesis
    by blast
qed

lemma trim_example: "trim [] = []" "trim (js ''+x'') \<noteq> []"
  by (simp_all add: trim_def isWhiteSpace_def js_def)

lemma validate_example:
  "validate_response review_body = Inr review_body"
  "validate_response error_body = Inl (ServiceError (JStr (js ''model not found'')))"
  by (simp_all add: validate_response_def review_body_def error_body_def js_def)

theorem generation_client_witness:
  "trim [] = [] \<and>
   aiGenerate (make_config [] [] False) example_globals (url example_globals) None []
       (model example_globals) None (scripted_net [Inr error_body, Inr review_body], [])
     = (Inl EmptyPrompt, (scripted_net [Inr error_body, Inr review_body], [])) \<and>
   validate_response review_body = Inr review_body \<and>
   trim (js ''+x'') \<noteq> [] \<and>
   aiGenerate (make_config [] [] False) example_globals (url example_globals) None (js ''+x'')
       (model example_globals) None (scripted_net [Inr error_body, Inr review_body], [])
     = (let R = generate_request (make_config [] [] False) example_globals
                  (url example_globals) None (js ''+x'') (model example_globals) None;
            first = generate_operation R (scripted_net [Inr error_body, Inr review_body]);
            second = generate_operation R (snd first)
        in if isl (fst first)
           then (fst second, (snd second, [] @ [Finite (retryDelay (make_config [] [] False))]))
           else (fst first, (snd first, [])))"
proof -
  let ?cfg = "make_config [] [] False"
  let ?w = "scripted_net [Inr error_body, Inr review_body]"
  note empty = generation_client [where p = "[]" and cfg = ?cfg and cfg' = ?cfg
      and g = example_globals and host = "url example_globals" and token = None
      and mdl = "model example_globals" and sys = None and st = "(?w, [])"]
  note whole = generation_client [where body = review_body and body' = review_body]
  note retried = generation_client [where p = "js ''+x''" and cfg = ?cfg and cfg' = ?cfg
      and g = example_globals and host = "url example_globals" and token = None
      and mdl = "model example_globals" and sys = None and w = ?w and sl = "[]"]
  from empty whole retried trim_example validate_example(1) show ?thesis
    by blast
qed

text \<open>
  The same run, evaluated: the first body reports an error, the second one is accepted
  after one delay of 5000 milliseconds, and the request was posted twice.
\<close>

lemma aiGenerate_example:
  "aiGenerate (make_config [] [] False) example_globals (url example_globals) None (js ''+x'')
       (model example_globals) None (scripted_net [Inr error_body, Inr review_body], [])
     = (Inr review_body,
        ((scripted_net [Inr error_body, Inr review_body])
           \<lparr>posted := replicate 2 (generate_request (make_config [] [] False) example_globals
               (url example_globals) None (js ''+x'') (model example_globals) None)\<rparr>,
         [Finite 5000]))"
  by (simp add: aiGenerate_attempts trim_example Let_def generate_operation_def post_def
      scripted_net_def validate_example make_config_def numeral_2_eq_2)

text \<open>
  A body whose \<open>response\<close> is the number 42 lacks a non-empty text field, and the
  enhanced \<open>aiGenerate\<close> accepts it at the first attempt: it is returned as the result,
  after one request and no delay. A body with the property \<open>error: null\<close> beside a
  review passes the checks as well. The checks look at the truthiness of a property, not
  at its presence or its type.
\<close>

theorem generation_accepts_number:
  "lacks_text number_body \<and>
   aiGenerate (make_config [] [] False) example_globals (url example_globals) None (js ''+x'')
       (model example_globals) None (scripted_net [Inr number_body], [])
     = (Inr number_body,
        ((scripted_net [Inr number_body])
           \<lparr>posted := [generate_request (make_config [] [] False) example_globals
               (url example_globals) None (js ''+x'') (model example_globals) None]\<rparr>,
         [])) \<and>
   field null_error_body (js ''error'') = Some JNull \<and>
   validate_response null_error_body = Inr null_error_body"
proof -
  have "lacks_text number_body"
    by (simp add: lacks_text_def number_body_def js_def)
  moreover have "validate_response number_body = Inr number_body"
    by (simp add: validate_response_def number_body_def js_def)
  moreover have "field null_error_body (js ''error'') = Some JNull"
    "validate_response null_error_body = Inr null_error_body"
    by (simp_all add: validate_response_def null_error_body_def js_def)
  ultimately show ?thesis
    by (simp add: aiGenerate_attempts trim_example Let_def generate_operation_def post_def
        scripted_net_def)
qed

text \<open>Such a body fails the item later, when the comment is formatted, and is not retried.\<close>

lemma number_fails_formatting:
  "process_item (make_config [] [] False) example_globals example_env 0 item_a
       (scripted_net [Inr number_body], [])
     = (Inl NotAFunction,
        ((scripted_net [Inr number_body])
           \<lparr>posted := [generate_request (make_config [] [] False) example_globals
               (url example_globals) (INPUT_AI_TOKEN example_env) (item_context item_a)
               (model example_globals) (INPUT_REVIEW_PROMPT example_env)]\<rparr>,
         []))"
proof -
  have "validate_response number_body = Inr number_body"
    by (simp add: validate_response_def number_body_def js_def)
  moreover have "response_text number_body = Inl NotAFunction"
    by (simp add: response_text_def number_body_def js_def)
  moreover have "trim (item_context item_a) \<noteq> []"
    by (simp add: item_a_def trim_def isWhiteSpace_def js_def)
  ultimately show ?thesis
    by (simp add: process_item_def aiGenerate_attempts Let_def generate_operation_def post_def
        scripted_net_def)
qed

section \<open>Properties of the review orchestrator\<close>

lemma length_item_outcomes: "length (item_outcomes cfg g ev i items st) = length items"
  by (induction items arbitrary: i st) (simp_all split: prod.splits)

lemma length_item_outcomes_old: "length (item_outcomes_old cfg g ev items st) = length items"
  by (induction items arbitrary: st) (simp_all split: prod.splits)

lemma failed_paths_Cons:
  "failed_paths (it # items) (r # rs) =
     (if isl r then item_path it # failed_paths items rs else failed_paths items rs)"
  by (simp add: failed_paths_def)

text \<open>The loop, from any counters and any state, against the outcomes of its items.\<close>

lemma review_loop_tally:
  assumes "review_loop cfg g ev i items t st = (t', st')"
  shows "successCount t' =
           successCount t + length (filter (\<lambda>r. \<not> isl r) (item_outcomes cfg g ev i items st)) \<and>
         errorCount t' =
           errorCount t + length (filter isl (item_outcomes cfg g ev i items st)) \<and>
         failedFiles t' =
           failedFiles t @ failed_paths items (item_outcomes cfg g ev i items st)"
  using assms
proof (induction items arbitrary: i t st)
  case Nil
  then show ?case by (auto simp: failed_paths_def)
next
  case (Cons it rest)
  obtain r st1 where step: "process_item cfg g ev i it st = (r, st1)"
    by (cases "process_item cfg g ev i it st")
  show ?case
  proof (cases r)
    case (Inl e)
    with step Cons.prems
    have "review_loop cfg g ev (i + 1) rest
        (t\<lparr>errorCount := errorCount t + 1, failedFiles := failedFiles t @ [item_path it]\<rparr>) st1
        = (t', st')"
      by simp
    from Cons.IH [OF this] step Inl show ?thesis
      by (simp add: failed_paths_Cons)
  next
    case (Inr u)
    with step Cons.prems
    have "review_loop cfg g ev (i + 1) rest (t\<lparr>successCount := successCount t + 1\<rparr>) st1
        = (t', st')"
      by simp
    from Cons.IH [OF this] step Inr show ?thesis
      by (simp add: failed_paths_Cons)
  qed
qed

lemma review_loop_old_tally:
  assumes "review_loop_old cfg g ev items c st = (c', st')"
  shows "fst c' = fst c + length (filter (\<lambda>r. \<not> isl r) (item_outcomes_old cfg g ev items st)) \<and>
         snd c' = snd c + length (filter isl (item_outcomes_old cfg g ev items st))"
  using assms
proof (induction items arbitrary: c st)
  case Nil
  then show ?case by auto
next
  case (Cons it rest)
  obtain r st1 where step: "process_item_old cfg g ev it st = (r, st1)"
    by (cases "process_item_old cfg g ev it st")
  show ?case
  proof (cases r)
    case (Inl e)
    with step Cons.prems
    have "review_loop_old cfg g ev rest (fst c, snd c + 1) st1 = (c', st')"
      by simp
    from Cons.IH [OF this] step Inl show ?thesis
      by simp
  next
    case (Inr u)
    with step Cons.prems
    have "review_loop_old cfg g ev rest (fst c + 1, snd c) st1 = (c', st')"
      by simp
    from Cons.IH [OF this] step Inr show ?thesis
      by simp
  qed
qed

lemma filter_split_length:
  "length (filter (\<lambda>r. \<not> P r) rs) + length (filter P rs) = length rs"
  by (induction rs) simp_all

lemma length_failed_paths:
  "length items = length rs \<Longrightarrow> length (failed_paths items rs) = length (filter isl rs)"
proof (induction items arbitrary: rs)
  case Nil
  then show ?case by (simp add: failed_paths_def)
next
  case (Cons it items)
  then obtain r rs' where "rs = r # rs'"
    by (cases rs) simp_all
  with Cons show ?case
    by (simp add: failed_paths_Cons)
qed

text \<open>With distinct paths, a path is in the list once if its item failed and not at all otherwise.\<close>

lemma failed_paths_notin:
  "length items = length rs \<Longrightarrow> p \<notin> item_path ` set items \<Longrightarrow>
     count_list (failed_paths items rs) p = 0"
proof (induction items arbitrary: rs)
  case Nil
  then show ?case by (simp add: failed_paths_def)
next
  case (Cons it items)
  then obtain r rs' where "rs = r # rs'"
    by (cases rs) simp_all
  with Cons show ?case
    by (auto simp: failed_paths_Cons)
qed

lemma failed_paths_once:
  assumes "length items = length rs" and "distinct (map item_path items)"
    and "j < length items"
  shows "count_list (failed_paths items rs) (item_path (items ! j)) =
     (if isl (rs ! j) then 1 else 0)"
  using assms
proof (induction items arbitrary: rs j)
  case Nil
  then show ?case by simp
next
  case (Cons it items)
  then obtain r rs' where rs: "rs = r # rs'"
    by (cases rs) simp_all
  show ?case
  proof (cases j)
    case 0
    from Cons.prems rs have "count_list (failed_paths items rs') (item_path it) = 0"
      by (intro failed_paths_notin) auto
    with 0 rs show ?thesis
      by (simp add: failed_paths_Cons)
  next
    case (Suc j')
    with Cons.prems rs have "items ! j' \<in> set items"
      by simp
    moreover from Cons.prems have "item_path it \<notin> item_path ` set items"
      by simp
    ultimately have "item_path (items ! j') \<noteq> item_path it"
      by (metis imageI)
    moreover from Cons.prems rs Suc
    have "count_list (failed_paths items rs') (item_path (items ! j')) =
        (if isl (rs' ! j') then 1 else 0)"
      by (intro Cons.IH) auto
    ultimately show ?thesis
      using Suc rs by (simp add: failed_paths_Cons)
  qed
qed

text \<open>What the collectors return is in scope.\<close>

lemma collected_in_scope:
  assumes "(if reviewPullRequest cfg then getPrDiffContext rx cfg ev sh
            else getHeadDiffContext rx cfg sh) = Inr items"
    and "it \<in> set items"
  shows "in_scope rx (includeFiles cfg) (excludeFiles cfg) (item_path it)"
proof (cases "reviewPullRequest cfg")
  case False
  with assms(1) have get: "getHeadDiffContext rx cfg sh = Inr items"
    by simp
  then obtain out where names: "sh (js ''git diff --name-only HEAD^'') = Inr out"
    by (cases "sh (js ''git diff --name-only HEAD^'')") (simp_all add: getHeadDiffContext_fail)
  from getHeadDiffContext_eq [of sh out rx cfg] names get assms(2) show ?thesis
    by auto
next
  case True
  with assms(1) have get: "getPrDiffContext rx cfg ev sh = Inr items"
    by simp
  then obtain fetched where f: "sh (js ''git fetch origin '' @ base_ref ev) = Inr fetched"
    by (cases "sh (js ''git fetch origin '' @ base_ref ev)")
      (simp_all add: getPrDiffContext_fail_fetch)
  with get obtain out where names: "sh (pr_names_command (base_ref ev)) = Inr out"
    by (cases "sh (pr_names_command (base_ref ev))")
      (simp_all add: getPrDiffContext_fail_names)
  from getPrDiffContext_eq [of sh ev fetched out rx cfg] f names get assms(2) show ?thesis
    by auto
qed

text \<open>
  Claim C1. Let the loop of the enhanced variant run over the items the collector
  returned, from counters at zero, and let \<open>rs\<close> be the outcomes of the items. Then there
  is one outcome per item; \<open>successCount\<close> is the number of items that succeeded and
  \<open>errorCount\<close> the number of items that failed, so the two add up to the number of items;
  \<open>failedFiles\<close> is the list of the paths of the failed items, in order, one entry for each
  failure, whatever the stage at which the item failed; when the paths are distinct, the
  path of a failed item is in the list exactly once and the path of an item that
  succeeded is not in it. Every item is in scope of the inclusion policy. The counters of
  the older variant, which keeps no list, add up in the same way.
\<close>

theorem run_tally:
  "(if reviewPullRequest cfg then getPrDiffContext rx cfg ev sh
    else getHeadDiffContext rx cfg sh) = Inr items \<longrightarrow>
     (let t = fst (review_loop cfg g ev 0 items
                     \<lparr>successCount = 0, errorCount = 0, failedFiles = []\<rparr> st);
          rs = item_outcomes cfg g ev 0 items st;
          c = fst (review_loop_old cfg0 g ev items (0, 0) st);
          rs0 = item_outcomes_old cfg0 g ev items st
      in length rs = length items \<and>
         successCount t = length (filter (\<lambda>r. \<not> isl r) rs) \<and>
         errorCount t = length (filter isl rs) \<and>
         successCount t + errorCount t = length items \<and>
         failedFiles t = failed_paths items rs \<and>
         length (failedFiles t) = errorCount t \<and>
         (distinct (map item_path items) \<longrightarrow>
            (\<forall>j<length items.
               count_list (failedFiles t) (item_path (items ! j))
                 = (if isl (rs ! j) then 1 else 0))) \<and>
         (\<forall>it \<in> set items. in_scope rx (includeFiles cfg) (excludeFiles cfg) (item_path it)) \<and>
         fst c = length (filter (\<lambda>r. \<not> isl r) rs0) \<and>
         snd c = length (filter isl rs0) \<and>
         fst c + snd c = length items)"
proof
  assume collected: "(if reviewPullRequest cfg then getPrDiffContext rx cfg ev sh
      else getHeadDiffContext rx cfg sh) = Inr items"
  define rs where "rs = item_outcomes cfg g ev 0 items st"
  define rs0 where "rs0 = item_outcomes_old cfg0 g ev items st"
  obtain t st' where loop: "review_loop cfg g ev 0 items
      \<lparr>successCount = 0, errorCount = 0, failedFiles = []\<rparr> st = (t, st')"
    by (cases "review_loop cfg g ev 0 items
      \<lparr>successCount = 0, errorCount = 0, failedFiles = []\<rparr> st")
  obtain c st0 where loop0: "review_loop_old cfg0 g ev items (0, 0) st = (c, st0)"
    by (cases "review_loop_old cfg0 g ev items (0, 0) st")
  have len: "length rs = length items"
    by (simp add: rs_def length_item_outcomes)
  have len0: "length rs0 = length items"
    by (simp add: rs0_def length_item_outcomes_old)
  from review_loop_tally [OF loop]
  have tally: "successCount t = length (filter (\<lambda>r. \<not> isl r) rs)"
    "errorCount t = length (filter isl rs)" "failedFiles t = failed_paths items rs"
    by (simp_all add: rs_def)
  from review_loop_old_tally [OF loop0]
  have tally0: "fst c = length (filter (\<lambda>r. \<not> isl r) rs0)" "snd c = length (filter isl rs0)"
    by (simp_all add: rs0_def)
  have sum: "successCount t + errorCount t = length items"
    using filter_split_length [of isl rs] by (simp add: tally len)
  have sum0: "fst c + snd c = length items"
    using filter_split_length [of isl rs0] by (simp add: tally0 len0)
  have failed: "length (failedFiles t) = errorCount t"
    using length_failed_paths [of items rs] by (simp add: tally len)
  have once: "distinct (map item_path items) \<longrightarrow>
      (\<forall>j<length items.
         count_list (failedFiles t) (item_path (items ! j)) = (if isl (rs ! j) then 1 else 0))"
    using failed_paths_once [of items rs] by (simp add: tally len)
  have scope: "\<forall>it \<in> set items.
      in_scope rx (includeFiles cfg) (excludeFiles cfg) (item_path it)"
    using collected_in_scope [OF collected] by blast
  have "length rs = length items \<and>
     successCount t = length (filter (\<lambda>r. \<not> isl r) rs) \<and>
     errorCount t = length (filter isl rs) \<and>
     successCount t + errorCount t = length items \<and>
     failedFiles t = failed_paths items rs \<and>
     length (failedFiles t) = errorCount t \<and>
     (distinct (map item_path items) \<longrightarrow>
        (\<forall>j<length items.
           count_list (failedFiles t) (item_path (items ! j)) = (if isl (rs ! j) then 1 else 0))) \<and>
     (\<forall>it \<in> set items. in_scope rx (includeFiles cfg) (excludeFiles cfg) (item_path it)) \<and>
     fst c = length (filter (\<lambda>r. \<not> isl r) rs0) \<and>
     snd c = length (filter isl rs0) \<and>
     fst c + snd c = length items"
    using len tally tally0 sum sum0 failed once scope by blast
  then show "let t = fst (review_loop cfg g ev 0 items
                     \<lparr>successCount = 0, errorCount = 0, failedFiles = []\<rparr> st);
          rs = item_outcomes cfg g ev 0 items st;
          c = fst (review_loop_old cfg0 g ev items (0, 0) st);
          rs0 = item_outcomes_old cfg0 g ev items st
      in length rs = length items \<and>
         successCount t = length (filter (\<lambda>r. \<not> isl r) rs) \<and>
         errorCount t = length (filter isl rs) \<and>
         successCount t + errorCount t = length items \<and>
         failedFiles t = failed_paths items rs \<and>
         length (failedFiles t) = errorCount t \<and>
         (distinct (map item_path items) \<longrightarrow>
            (\<forall>j<length items.
               count_list (failedFiles t) (item_path (items ! j))
                 = (if isl (rs ! j) then 1 else 0))) \<and>
         (\<forall>it \<in> set items. in_scope rx (includeFiles cfg) (excludeFiles cfg) (item_path it)) \<and>
         fst c = length (filter (\<lambda>r. \<not> isl r) rs0) \<and>
         snd c = length (filter isl rs0) \<and>
         fst c + snd c = length items"
    unfolding Let_def loop loop0 rs_def rs0_def fst_conv .
qed

text \<open>The collector on the example repository, with nothing excluded and with \<open>docs\<close> excluded.\<close>

lemma example_diffs:
  "example_shell (head_diff_command (js ''src/a.ts'')) = Inr (js ''+x'')"
  "example_shell (head_diff_command (js ''docs/b.md'')) = Inr (js ''+y'')"
  by (simp_all add: example_simps)

lemma example_scope:
  "in_scope example_engine [] [] F"
  "in_scope example_engine [] [js ''docs''] (js ''src/a.ts'')"
  "\<not> in_scope example_engine [] [js ''docs''] (js ''docs/b.md'')"
  by (simp_all add: in_scope_def doesAnyPatternMatch_def pattern_test_def new_RegExp_def
      example_simps)

lemma example_has_diff: "has_diff (Inr (js ''+x''))" "has_diff (Inr (js ''+y''))"
  by (simp_all add: has_diff_def trim_def isWhiteSpace_def js_def)

lemma example_limitDiff: "limitDiff (js ''+x'') = js ''+x''" "limitDiff (js ''+y'') = js ''+y''"
  by (simp_all add: limitDiff_def)

lemma example_config:
  "includeFiles (make_config inc exc pr) = inc" "excludeFiles (make_config inc exc pr) = exc"
  "reviewPullRequest (make_config inc exc pr) = pr" "retryDelay (make_config inc exc pr) = 5000"
  "maxRetries (make_config inc exc pr) = 3"
  by (simp_all add: make_config_def)

lemma example_collected_all:
  "getHeadDiffContext example_engine (make_config [] [] False) example_shell =
     Inr [\<lparr>item_path = js ''src/a.ts'', item_context = js ''+x''\<rparr>,
          \<lparr>item_path = js ''docs/b.md'', item_context = js ''+y''\<rparr>]"
  using getHeadDiffContext_eq [of example_shell "js ''src/a.ts\<newline>docs/b.md\<newline>''"
      example_engine "make_config [] [] False"]
  by (simp add: example_shell_names example_changed_files example_config example_scope
      example_diffs example_has_diff example_limitDiff)

lemma example_collected_src:
  "getHeadDiffContext example_engine (make_config [] [js ''docs''] False) example_shell =
     Inr [\<lparr>item_path = js ''src/a.ts'', item_context = js ''+x''\<rparr>]"
  using getHeadDiffContext_eq [of example_shell "js ''src/a.ts\<newline>docs/b.md\<newline>''"
      example_engine "make_config [] [js ''docs''] False"]
  by (simp add: example_shell_names example_changed_files example_config example_scope
      example_diffs example_has_diff example_limitDiff)

lemma errors_only_iff:
  assumes "review_loop cfg g ev 0 items
      \<lparr>successCount = 0, errorCount = 0, failedFiles = []\<rparr> st = (t, st')"
  shows "errorCount t > 0 \<and> successCount t = 0 \<longleftrightarrow>
     items \<noteq> [] \<and> (\<forall>r \<in> set (item_outcomes cfg g ev 0 items st). isl r)"
proof -
  let ?rs = "item_outcomes cfg g ev 0 items st"
  from review_loop_tally [OF assms]
  have tally: "successCount t = length (filter (\<lambda>r. \<not> isl r) ?rs)"
    "errorCount t = length (filter isl ?rs)"
    by simp_all
  have len: "length ?rs = length items"
    by (rule length_item_outcomes)
  have none: "length (filter (\<lambda>r. \<not> isl r) ?rs) = 0 \<longleftrightarrow> (\<forall>r \<in> set ?rs. isl r)"
    by (auto simp: filter_empty_conv)
  have some: "(\<forall>r \<in> set ?rs. isl r) \<Longrightarrow> length (filter isl ?rs) = length items"
    using filter_split_length [of isl ?rs] none len by simp
  show ?thesis
    using none some len by (auto simp: tally)
qed

text \<open>
  Claim C2. Let the connectivity test of the enhanced variant have passed and let the
  collector have returned \<open>items\<close>. With no items the run resolves at once, without
  entering the loop. Otherwise, with the counters the loop ends with: when no item failed
  the run resolves; when no item succeeded and some item failed the run raises the error
  \<open>All n files failed to be reviewed\<close>, which ends the process with exit code 1; when
  some items succeeded and some failed the run resolves. The run raises exactly when
  there are items and every one of them failed. The older variant, which has no
  connectivity test, ends in the same way.
\<close>

theorem terminal_classification:
  "(testOllamaConnection g st = (Inr (), st1) \<and>
    (if reviewPullRequest cfg then getPrDiffContext rx cfg ev sh
     else getHeadDiffContext rx cfg sh) = Inr items \<longrightarrow>
      (items = [] \<longrightarrow> aiCheckDiffContext rx cfg g ev sh st = (Resolved, st1)) \<and>
      (items \<noteq> [] \<longrightarrow>
         (let final = review_loop cfg g ev 0 items
                       \<lparr>successCount = 0, errorCount = 0, failedFiles = []\<rparr> st1;
              t = fst final
          in (errorCount t = 0 \<longrightarrow>
                aiCheckDiffContext rx cfg g ev sh st = (Resolved, snd final)) \<and>
             (successCount t = 0 \<and> errorCount t > 0 \<longrightarrow>
                run rx cfg g ev sh st = (Inl (AllFailed (length items)), snd final) \<and>
                aiCheckDiffContext rx cfg g ev sh st = (Exit 1, snd final)) \<and>
             (successCount t > 0 \<and> errorCount t > 0 \<longrightarrow>
                aiCheckDiffContext rx cfg g ev sh st = (Resolved, snd final)) \<and>
             (fst (aiCheckDiffContext rx cfg g ev sh st) = Exit 1 \<longleftrightarrow>
                (\<forall>r \<in> set (item_outcomes cfg g ev 0 items st1). isl r))))) \<and>
   ((if reviewPullRequest cfg0 then getPrDiffContext_old rx cfg0 ev sh
     else getHeadDiffContext_old rx cfg0 sh) = Inr items0 \<longrightarrow>
      (items0 = [] \<longrightarrow> aiCheckDiffContext_old rx cfg0 g ev sh st = (Resolved, st)) \<and>
      (items0 \<noteq> [] \<longrightarrow>
         (let final = review_loop_old cfg0 g ev items0 (0, 0) st;
              successes = fst (fst final);
              errors = snd (fst final)
          in (errors = 0 \<longrightarrow>
                aiCheckDiffContext_old rx cfg0 g ev sh st = (Resolved, snd final)) \<and>
             (successes = 0 \<and> errors > 0 \<longrightarrow>
                run_old rx cfg0 g ev sh st = (Inl (AllFailed (length items0)), snd final) \<and>
                aiCheckDiffContext_old rx cfg0 g ev sh st = (Exit 1, snd final)) \<and>
             (successes > 0 \<and> errors > 0 \<longrightarrow>
                aiCheckDiffContext_old rx cfg0 g ev sh st = (Resolved, snd final)))))"
proof (intro conjI impI)
  assume "testOllamaConnection g st = (Inr (), st1) \<and>
    (if reviewPullRequest cfg then getPrDiffContext rx cfg ev sh
     else getHeadDiffContext rx cfg sh) = Inr items"
    and "items = []"
  then show "aiCheckDiffContext rx cfg g ev sh st = (Resolved, st1)"
    by (simp add: aiCheckDiffContext_def run_def)
next
  assume pre: "testOllamaConnection g st = (Inr (), st1) \<and>
    (if reviewPullRequest cfg then getPrDiffContext rx cfg ev sh
     else getHeadDiffContext rx cfg sh) = Inr items"
    and items: "items \<noteq> []"
  obtain t st' where loop: "review_loop cfg g ev 0 items
      \<lparr>successCount = 0, errorCount = 0, failedFiles = []\<rparr> st1 = (t, st')"
    by (cases "review_loop cfg g ev 0 items
      \<lparr>successCount = 0, errorCount = 0, failedFiles = []\<rparr> st1")
  from pre items loop
  have run: "run rx cfg g ev sh st =
      (if errorCount t > 0 \<and> successCount t = 0 then (Inl (AllFailed (length items)), st')
       else (Inr (), st'))"
    by (simp add: run_def)
  from errors_only_iff [OF loop] items
  have all: "errorCount t > 0 \<and> successCount t = 0 \<longleftrightarrow>
      (\<forall>r \<in> set (item_outcomes cfg g ev 0 items st1). isl r)"
    by simp
  have "(errorCount t = 0 \<longrightarrow> aiCheckDiffContext rx cfg g ev sh st = (Resolved, st')) \<and>
     (successCount t = 0 \<and> errorCount t > 0 \<longrightarrow>
        run rx cfg g ev sh st = (Inl (AllFailed (length items)), st') \<and>
        aiCheckDiffContext rx cfg g ev sh st = (Exit 1, st')) \<and>
     (successCount t > 0 \<and> errorCount t > 0 \<longrightarrow>
        aiCheckDiffContext rx cfg g ev sh st = (Resolved, st')) \<and>
     (fst (aiCheckDiffContext rx cfg g ev sh st) = Exit 1 \<longleftrightarrow>
        (\<forall>r \<in> set (item_outcomes cfg g ev 0 items st1). isl r))"
    using all by (auto simp: aiCheckDiffContext_def run)
  then show "let final = review_loop cfg g ev 0 items
                       \<lparr>successCount = 0, errorCount = 0, failedFiles = []\<rparr> st1;
              t = fst final
          in (errorCount t = 0 \<longrightarrow>
                aiCheckDiffContext rx cfg g ev sh st = (Resolved, snd final)) \<and>
             (successCount t = 0 \<and> errorCount t > 0 \<longrightarrow>
                run rx cfg g ev sh st = (Inl (AllFailed (length items)), snd final) \<and>
                aiCheckDiffContext rx cfg g ev sh st = (Exit 1, snd final)) \<and>
             (successCount t > 0 \<and> errorCount t > 0 \<longrightarrow>
                aiCheckDiffContext rx cfg g ev sh st = (Resolved, snd final)) \<and>
             (fst (aiCheckDiffContext rx cfg g ev sh st) = Exit 1 \<longleftrightarrow>
                (\<forall>r \<in> set (item_outcomes cfg g ev 0 items st1). isl r))"
    unfolding Let_def loop fst_conv snd_conv .
next
  assume "(if reviewPullRequest cfg0 then getPrDiffContext_old rx cfg0 ev sh
     else getHeadDiffContext_old rx cfg0 sh) = Inr items0"
    and "items0 = []"
  then show "aiCheckDiffContext_old rx cfg0 g ev sh st = (Resolved, st)"
    by (simp add: aiCheckDiffContext_old_def run_old_def)
next
  assume pre: "(if reviewPullRequest cfg0 then getPrDiffContext_old rx cfg0 ev sh
     else getHeadDiffContext_old rx cfg0 sh) = Inr items0"
    and items: "items0 \<noteq> []"
  obtain s e st' where loop: "review_loop_old cfg0 g ev items0 (0, 0) st = ((s, e), st')"
    by (cases "review_loop_old cfg0 g ev items0 (0, 0) st") auto
  from pre items loop
  have run: "run_old rx cfg0 g ev sh st =
      (if e > 0 \<and> s = 0 then (Inl (AllFailed (length items0)), st') else (Inr (), st'))"
    by (simp add: run_old_def)
  have "(e = 0 \<longrightarrow> aiCheckDiffContext_old rx cfg0 g ev sh st = (Resolved, st')) \<and>
     (s = 0 \<and> e > 0 \<longrightarrow>
        run_old rx cfg0 g ev sh st = (Inl (AllFailed (length items0)), st') \<and>
        aiCheckDiffContext_old rx cfg0 g ev sh st = (Exit 1, st')) \<and>
     (s > 0 \<and> e > 0 \<longrightarrow> aiCheckDiffContext_old rx cfg0 g ev sh st = (Resolved, st'))"
    by (auto simp: aiCheckDiffContext_old_def run)
  then show "let final = review_loop_old cfg0 g ev items0 (0, 0) st;
              successes = fst (fst final);
              errors = snd (fst final)
          in (errors = 0 \<longrightarrow>
                aiCheckDiffContext_old rx cfg0 g ev sh st = (Resolved, snd final)) \<and>
             (successes = 0 \<and> errors > 0 \<longrightarrow>
                run_old rx cfg0 g ev sh st = (Inl (AllFailed (length items0)), snd final) \<and>
                aiCheckDiffContext_old rx cfg0 g ev sh st = (Exit 1, snd final)) \<and>
             (successes > 0 \<and> errors > 0 \<longrightarrow>
                aiCheckDiffContext_old rx cfg0 g ev sh st = (Resolved, snd final))"
    unfolding Let_def loop fst_conv snd_conv .
qed

text \<open>Runs on the example repository, with comments going to the local log.\<close>

lemma scripted_generate:
  "generate_operation R ((scripted_net replies)\<lparr>posted := ps\<rparr>) =
     ((if length ps < length replies
       then (case replies ! length ps of
               Inl m \<Rightarrow> Inl (External m)
             | Inr b \<Rightarrow> validate_response b)
       else Inl (External (js ''connection refused''))),
      (scripted_net replies)\<lparr>posted := ps @ [R]\<rparr>)"
  by (simp add: generate_operation_def post_def scripted_net_def split: sum.splits)

lemma scripted_connected:
  "testOllamaConnection example_globals (scripted_net (Inr b # replies), []) =
     (Inr (), connected (Inr b # replies))"
  by (simp add: testOllamaConnection_def post_def scripted_net_def connected_def
      tags_request_def)

lemma example_local: "falsy_var (INPUT_PULL_REQUEST_NUMBER example_env)"
  by (simp add: falsy_var_def example_env_def)

lemma local_log_id: "truthy_opt (field local_log (js ''id''))"
  by (simp add: local_log_def js_def)

lemma review_text: "response_text review_body = Inr (js ''LGTM'')"
  by (simp add: response_text_def review_body_def strip_fence_def startsWith_def js_def)

lemma trim_items: "trim (item_context item_a) \<noteq> []" "trim (item_context item_b) \<noteq> []"
  by (simp_all add: item_a_def item_b_def trim_def isWhiteSpace_def js_def)

text \<open>One item whose first body is accepted: it succeeds after one request.\<close>

lemma process_item_accepted:
  assumes "trim (item_context it) \<noteq> []" and "length ps < length replies"
    and "replies ! length ps = Inr review_body"
  shows "process_item cfg example_globals example_env i it
        ((scripted_net replies)\<lparr>posted := ps\<rparr>, sl) =
     (Inr (),
      ((scripted_net replies)
         \<lparr>posted := ps @ [generate_request cfg example_globals (url example_globals)
             (INPUT_AI_TOKEN example_env) (item_context it) (model example_globals)
             (INPUT_REVIEW_PROMPT example_env)]\<rparr>,
       if i > 0 then sl @ [Finite 2000] else sl))"
  using assms
  by (simp add: process_item_def sleep_def aiGenerate_attempts scripted_generate
      validate_example review_text pushComments_def example_local local_log_id Let_def)

text \<open>One item whose two bodies report an error: it fails after two requests and a delay.\<close>

lemma process_item_refused:
  assumes "trim (item_context it) \<noteq> []" and "Suc (length ps) < length replies"
    and "replies ! length ps = Inr error_body" and "replies ! Suc (length ps) = Inr error_body"
  shows "process_item cfg example_globals example_env i it
        ((scripted_net replies)\<lparr>posted := ps\<rparr>, sl) =
     (Inl (ServiceError (JStr (js ''model not found''))),
      ((scripted_net replies)
         \<lparr>posted := ps @ replicate 2 (generate_request cfg example_globals (url example_globals)
             (INPUT_AI_TOKEN example_env) (item_context it) (model example_globals)
             (INPUT_REVIEW_PROMPT example_env))\<rparr>,
       (if i > 0 then sl @ [Finite 2000] else sl) @ [Finite (retryDelay cfg)]))"
  using assms
  by (simp add: process_item_def sleep_def aiGenerate_attempts scripted_generate
      validate_example Let_def numeral_2_eq_2)

lemma run_one_accepted:
  "fst (review_loop (make_config [] [js ''docs''] False) example_globals example_env 0 [item_a]
          \<lparr>successCount = 0, errorCount = 0, failedFiles = []\<rparr>
          (connected [Inr (JObj []), Inr review_body])) =
     \<lparr>successCount = 1, errorCount = 0, failedFiles = []\<rparr>"
  by (simp add: connected_def process_item_accepted trim_items)

lemma run_one_refused:
  "fst (review_loop (make_config [] [js ''docs''] False) example_globals example_env 0 [item_a]
          \<lparr>successCount = 0, errorCount = 0, failedFiles = []\<rparr>
          (connected [Inr (JObj []), Inr error_body, Inr error_body])) =
     \<lparr>successCount = 0, errorCount = 1, failedFiles = [js ''src/a.ts'']\<rparr>"
  by (simp add: connected_def process_item_refused trim_items) (simp add: item_a_def)

lemma run_two_mixed:
  "fst (review_loop (make_config [] [] False) example_globals example_env 0 [item_a, item_b]
          \<lparr>successCount = 0, errorCount = 0, failedFiles = []\<rparr>
          (connected [Inr (JObj []), Inr review_body, Inr error_body, Inr error_body])) =
     \<lparr>successCount = 1, errorCount = 1, failedFiles = [js ''docs/b.md'']\<rparr>"
  by (simp add: connected_def process_item_accepted process_item_refused trim_items)
    (simp add: item_b_def)

lemma example_config_old:
  "includeFiles (make_config_old inc exc pr) = inc"
  "excludeFiles (make_config_old inc exc pr) = exc"
  "reviewPullRequest (make_config_old inc exc pr) = pr"
  "retryDelay (make_config_old inc exc pr) = 2000"
  "maxRetries (make_config_old inc exc pr) = 3"
  by (simp_all add: make_config_old_def)

lemma example_scope_none:
  "\<not> in_scope example_engine [js ''lib''] [] (js ''src/a.ts'')"
  "\<not> in_scope example_engine [js ''lib''] [] (js ''docs/b.md'')"
  by (simp_all add: in_scope_def doesAnyPatternMatch_def pattern_test_def new_RegExp_def
      example_simps)

lemma collected_all:
  "(if reviewPullRequest (make_config [] [] False)
    then getPrDiffContext example_engine (make_config [] [] False) example_env example_shell
    else getHeadDiffContext example_engine (make_config [] [] False) example_shell)
     = Inr [item_a, item_b]"
  by (simp add: example_config example_collected_all item_a_def item_b_def)

lemma collected_src:
  "(if reviewPullRequest (make_config [] [js ''docs''] False)
    then getPrDiffContext example_engine (make_config [] [js ''docs''] False) example_env
           example_shell
    else getHeadDiffContext example_engine (make_config [] [js ''docs''] False) example_shell)
     = Inr [item_a]"
  by (simp add: example_config example_collected_src item_a_def)

lemma collected_none:
  "(if reviewPullRequest (make_config [js ''lib''] [] False)
    then getPrDiffContext example_engine (make_config [js ''lib''] [] False) example_env
           example_shell
    else getHeadDiffContext example_engine (make_config [js ''lib''] [] False) example_shell)
     = Inr []"
  using getHeadDiffContext_eq [of example_shell "js ''src/a.ts\<newline>docs/b.md\<newline>''"
      example_engine "make_config [js ''lib''] [] False"]
  by (simp add: example_shell_names example_changed_files example_config example_scope_none)

lemma collected_old_src:
  "(if reviewPullRequest (make_config_old [] [js ''docs''] False)
    then getPrDiffContext_old example_engine (make_config_old [] [js ''docs''] False)
           example_env example_shell
    else getHeadDiffContext_old example_engine (make_config_old [] [js ''docs''] False)
           example_shell)
     = Inr [item_a]"
  using getHeadDiffContext_old_eq [of example_shell "js ''src/a.ts\<newline>docs/b.md\<newline>''"
      example_engine "make_config_old [] [js ''docs''] False"]
  by (simp add: example_shell_names example_changed_files example_config_old example_scope
      example_diffs example_has_diff item_a_def)

lemma collected_old_none:
  "(if reviewPullRequest (make_config_old [js ''lib''] [] False)
    then getPrDiffContext_old example_engine (make_config_old [js ''lib''] [] False)
           example_env example_shell
    else getHeadDiffContext_old example_engine (make_config_old [js ''lib''] [] False)
           example_shell)
     = Inr []"
  using getHeadDiffContext_old_eq [of example_shell "js ''src/a.ts\<newline>docs/b.md\<newline>''"
      example_engine "make_config_old [js ''lib''] [] False"]
  by (simp add: example_shell_names example_changed_files example_config_old
      example_scope_none)

lemma process_item_old_accepted:
  assumes "trim (item_context it) \<noteq> []" and "length ps < length replies"
    and "replies ! length ps = Inr review_body"
  shows "fst (process_item_old cfg example_globals example_env it
        ((scripted_net replies)\<lparr>posted := ps\<rparr>, sl)) = Inr ()"
  using assms
  by (simp add: process_item_old_def aiGenerate_old_attempts scripted_generate
      validate_example review_text pushComments_old_def example_local local_log_id Let_def)

lemma process_item_old_refused:
  assumes "trim (item_context it) \<noteq> []" and "Suc (length ps) < length replies"
    and "replies ! length ps = Inr error_body" and "replies ! Suc (length ps) = Inr error_body"
  shows "fst (process_item_old cfg example_globals example_env it
        ((scripted_net replies)\<lparr>posted := ps\<rparr>, sl))
     = Inl (ServiceError (JStr (js ''model not found'')))"
  using assms
  by (simp add: process_item_old_def aiGenerate_old_attempts scripted_generate
      validate_example Let_def)

lemma scripted_fresh: "(scripted_net replies)\<lparr>posted := []\<rparr> = scripted_net replies"
  by (simp add: scripted_net_def)

lemma run_old_one_accepted:
  "fst (review_loop_old (make_config_old [] [js ''docs''] False) example_globals example_env
          [item_a] (0, 0) (scripted_net [Inr review_body], [])) = (1, 0)"
  using process_item_old_accepted [of item_a "[]" "[Inr review_body]"
      "make_config_old [] [js ''docs''] False" "[]"]
  by (auto simp: trim_items scripted_fresh split: prod.splits)

lemma run_old_one_refused:
  "fst (review_loop_old (make_config_old [] [js ''docs''] False) example_globals example_env
          [item_a] (0, 0) (scripted_net [Inr error_body, Inr error_body], [])) = (0, 1)"
  using process_item_old_refused [of item_a "[]" "[Inr error_body, Inr error_body]"
      "make_config_old [] [js ''docs''] False" "[]"]
  by (auto simp: trim_items scripted_fresh split: prod.splits)

theorem run_tally_witness:
  "(if reviewPullRequest (make_config [] [] False)
    then getPrDiffContext example_engine (make_config [] [] False) example_env example_shell
    else getHeadDiffContext example_engine (make_config [] [] False) example_shell)
     = Inr [item_a, item_b] \<and>
   distinct (map item_path [item_a, item_b]) \<and>
   (1 :: nat) < length [item_a, item_b] \<and>
   item_b \<in> set [item_a, item_b] \<and>
   (let t = fst (review_loop (make_config [] [] False) example_globals example_env 0
                   [item_a, item_b] \<lparr>successCount = 0, errorCount = 0, failedFiles = []\<rparr>
                   (connected [Inr (JObj []), Inr review_body, Inr error_body, Inr error_body]));
        rs = item_outcomes (make_config [] [] False) example_globals example_env 0
               [item_a, item_b]
               (connected [Inr (JObj []), Inr review_body, Inr error_body, Inr error_body])
    in successCount t + errorCount t = length [item_a, item_b] \<and>
       failedFiles t = failed_paths [item_a, item_b] rs \<and>
       length (failedFiles t) = errorCount t \<and>
       count_list (failedFiles t) (item_path ([item_a, item_b] ! 1))
         = (if isl (rs ! 1) then 1 else 0) \<and>
       in_scope example_engine (includeFiles (make_config [] [] False))
         (excludeFiles (make_config [] [] False)) (item_path item_b))"
proof -
  have paths: "distinct (map item_path [item_a, item_b])"
    by (simp add: item_a_def item_b_def js_def)
  have index: "(1 :: nat) < length [item_a, item_b]" "item_b \<in> set [item_a, item_b]"
    by simp_all
  note tally = run_tally [of "make_config [] [] False" example_engine example_env example_shell
      "[item_a, item_b]" example_globals
      "connected [Inr (JObj []), Inr review_body, Inr error_body, Inr error_body]"
      "make_config_old [] [] False"]
  from tally collected_all paths index show ?thesis
    unfolding Let_def by blast
qed

text \<open>The counters of that run: the first item is reviewed, the second fails.\<close>

lemma run_tally_example:
  "fst (review_loop (make_config [] [] False) example_globals example_env 0 [item_a, item_b]
          \<lparr>successCount = 0, errorCount = 0, failedFiles = []\<rparr>
          (connected [Inr (JObj []), Inr review_body, Inr error_body, Inr error_body])) =
     \<lparr>successCount = 1, errorCount = 1, failedFiles = [js ''docs/b.md'']\<rparr>"
  by (rule run_two_mixed)

theorem terminal_classification_witness:
  "testOllamaConnection example_globals (scripted_net [Inr (JObj [])], [])
     = (Inr (), connected [Inr (JObj [])]) \<and>
   (if reviewPullRequest (make_config [js ''lib''] [] False)
    then getPrDiffContext example_engine (make_config [js ''lib''] [] False) example_env
           example_shell
    else getHeadDiffContext example_engine (make_config [js ''lib''] [] False) example_shell)
     = Inr [] \<and>
   aiCheckDiffContext example_engine (make_config [js ''lib''] [] False) example_globals
       example_env example_shell (scripted_net [Inr (JObj [])], [])
     = (Resolved, connected [Inr (JObj [])]) \<and>
   errorCount (fst (review_loop (make_config [] [js ''docs''] False) example_globals
       example_env 0 [item_a] \<lparr>successCount = 0, errorCount = 0, failedFiles = []\<rparr>
       (connected [Inr (JObj []), Inr review_body]))) = 0 \<and>
   fst (aiCheckDiffContext example_engine (make_config [] [js ''docs''] False) example_globals
       example_env example_shell (scripted_net [Inr (JObj []), Inr review_body], []))
     = Resolved \<and>
   successCount (fst (review_loop (make_config [] [js ''docs''] False) example_globals
       example_env 0 [item_a] \<lparr>successCount = 0, errorCount = 0, failedFiles = []\<rparr>
       (connected [Inr (JObj []), Inr error_body, Inr error_body]))) = 0 \<and>
   errorCount (fst (review_loop (make_config [] [js ''docs''] False) example_globals
       example_env 0 [item_a] \<lparr>successCount = 0, errorCount = 0, failedFiles = []\<rparr>
       (connected [Inr (JObj []), Inr error_body, Inr error_body]))) > 0 \<and>
   fst (aiCheckDiffContext example_engine (make_config [] [js ''docs''] False) example_globals
       example_env example_shell
       (scripted_net [Inr (JObj []), Inr error_body, Inr error_body], []))
     = Exit 1 \<and>
   successCount (fst (review_loop (make_config [] [] False) example_globals example_env 0
       [item_a, item_b] \<lparr>successCount = 0, errorCount = 0, failedFiles = []\<rparr>
       (connected [Inr (JObj []), Inr review_body, Inr error_body, Inr error_body]))) > 0 \<and>
   errorCount (fst (review_loop (make_config [] [] False) example_globals example_env 0
       [item_a, item_b] \<lparr>successCount = 0, errorCount = 0, failedFiles = []\<rparr>
       (connected [Inr (JObj []), Inr review_body, Inr error_body, Inr error_body]))) > 0 \<and>
   fst (aiCheckDiffContext example_engine (make_config [] [] False) example_globals
       example_env example_shell
       (scripted_net [Inr (JObj []), Inr review_body, Inr error_body, Inr error_body], []))
     = Resolved \<and>
   aiCheckDiffContext_old example_engine (make_config_old [js ''lib''] [] False)
       example_globals example_env example_shell (scripted_net [], [])
     = (Resolved, (scripted_net [], [])) \<and>
   fst (aiCheckDiffContext_old example_engine (make_config_old [] [js ''docs''] False)
       example_globals example_env example_shell (scripted_net [Inr review_body], []))
     = Resolved \<and>
   fst (aiCheckDiffContext_old example_engine (make_config_old [] [js ''docs''] False)
       example_globals example_env example_shell
       (scripted_net [Inr error_body, Inr error_body], []))
     = Exit 1"
proof -
  let ?t0 = "\<lparr>successCount = 0, errorCount = 0, failedFiles = []\<rparr>"
  have items: "[item_a] \<noteq> []" "[item_a, item_b] \<noteq> []"
    by simp_all
  have no_items: "aiCheckDiffContext example_engine (make_config [js ''lib''] [] False)
      example_globals example_env example_shell (scripted_net [Inr (JObj [])], [])
      = (Resolved, connected [Inr (JObj [])])"
    using terminal_classification [where g = example_globals
        and st = "(scripted_net [Inr (JObj [])], [])" and ?st1.0 = "connected [Inr (JObj [])]"
        and cfg = "make_config [js ''lib''] [] False" and rx = example_engine
        and ev = example_env and sh = example_shell and items = "[]"]
      scripted_connected [of "JObj []" "[]"] collected_none
    by blast
  have counts1: "errorCount (fst (review_loop (make_config [] [js ''docs''] False)
      example_globals example_env 0 [item_a] ?t0
      (connected [Inr (JObj []), Inr review_body]))) = 0"
    by (simp only: run_one_accepted tally.simps)
  have "aiCheckDiffContext example_engine (make_config [] [js ''docs''] False)
      example_globals example_env example_shell
      (scripted_net [Inr (JObj []), Inr review_body], []) =
      (Resolved, snd (review_loop (make_config [] [js ''docs''] False) example_globals
        example_env 0 [item_a] ?t0 (connected [Inr (JObj []), Inr review_body])))"
    using terminal_classification [unfolded Let_def, where g = example_globals
        and st = "(scripted_net [Inr (JObj []), Inr review_body], [])"
        and ?st1.0 = "connected [Inr (JObj []), Inr review_body]"
        and cfg = "make_config [] [js ''docs''] False" and rx = example_engine
        and ev = example_env and sh = example_shell and items = "[item_a]"]
      scripted_connected [of "JObj []" "[Inr review_body]"] collected_src items counts1
    by blast
  then have reviewed: "fst (aiCheckDiffContext example_engine
      (make_config [] [js ''docs''] False) example_globals example_env example_shell
      (scripted_net [Inr (JObj []), Inr review_body], [])) = Resolved"
    by (simp only: fst_conv)
  have counts2: "successCount (fst (review_loop (make_config [] [js ''docs''] False)
      example_globals example_env 0 [item_a] ?t0
      (connected [Inr (JObj []), Inr error_body, Inr error_body]))) = 0"
    "errorCount (fst (review_loop (make_config [] [js ''docs''] False)
      example_globals example_env 0 [item_a] ?t0
      (connected [Inr (JObj []), Inr error_body, Inr error_body]))) > 0"
    by (simp_all only: run_one_refused tally.simps zero_less_one)
  have "aiCheckDiffContext example_engine (make_config [] [js ''docs''] False)
      example_globals example_env example_shell
      (scripted_net [Inr (JObj []), Inr error_body, Inr error_body], []) =
      (Exit 1, snd (review_loop (make_config [] [js ''docs''] False) example_globals
        example_env 0 [item_a] ?t0
        (connected [Inr (JObj []), Inr error_body, Inr error_body])))"
    using terminal_classification [unfolded Let_def, where g = example_globals
        and st = "(scripted_net [Inr (JObj []), Inr error_body, Inr error_body], [])"
        and ?st1.0 = "connected [Inr (JObj []), Inr error_body, Inr error_body]"
        and cfg = "make_config [] [js ''docs''] False" and rx = example_engine
        and ev = example_env and sh = example_shell and items = "[item_a]"]
      scripted_connected [of "JObj []" "[Inr error_body, Inr error_body]"] collected_src
      items counts2
    by blast
  then have failed: "fst (aiCheckDiffContext example_engine
      (make_config [] [js ''docs''] False) example_globals example_env example_shell
      (scripted_net [Inr (JObj []), Inr error_body, Inr error_body], [])) = Exit 1"
    by (simp only: fst_conv)
  have counts3: "successCount (fst (review_loop (make_config [] [] False)
      example_globals example_env 0 [item_a, item_b] ?t0
      (connected [Inr (JObj []), Inr review_body, Inr error_body, Inr error_body]))) > 0"
    "errorCount (fst (review_loop (make_config [] [] False)
      example_globals example_env 0 [item_a, item_b] ?t0
      (connected [Inr (JObj []), Inr review_body, Inr error_body, Inr error_body]))) > 0"
    by (simp_all only: run_two_mixed tally.simps zero_less_one)
  have "aiCheckDiffContext example_engine (make_config [] [] False)
      example_globals example_env example_shell
      (scripted_net [Inr (JObj []), Inr review_body, Inr error_body, Inr error_body], []) =
      (Resolved, snd (review_loop (make_config [] [] False) example_globals
        example_env 0 [item_a, item_b] ?t0
        (connected [Inr (JObj []), Inr review_body, Inr error_body, Inr error_body])))"
    using terminal_classification [unfolded Let_def, where g = example_globals
        and st = "(scripted_net [Inr (JObj []), Inr review_body, Inr error_body,
          Inr error_body], [])"
        and ?st1.0 = "connected [Inr (JObj []), Inr review_body, Inr error_body,
          Inr error_body]"
        and cfg = "make_config [] [] False" and rx = example_engine
        and ev = example_env and sh = example_shell and items = "[item_a, item_b]"]
      scripted_connected [of "JObj []" "[Inr review_body, Inr error_body, Inr error_body]"]
      collected_all items counts3
    by blast
  then have partial: "fst (aiCheckDiffContext example_engine (make_config [] [] False)
      example_globals example_env example_shell
      (scripted_net [Inr (JObj []), Inr review_body, Inr error_body, Inr error_body], []))
      = Resolved"
    by (simp only: fst_conv)
  have no_items_old: "aiCheckDiffContext_old example_engine
      (make_config_old [js ''lib''] [] False) example_globals example_env example_shell
      (scripted_net [], []) = (Resolved, (scripted_net [], []))"
    using terminal_classification [where ?cfg0.0 = "make_config_old [js ''lib''] [] False"
        and rx = example_engine and ev = example_env and sh = example_shell
        and ?items0.0 = "[]" and g = example_globals and st = "(scripted_net [], [])"]
      collected_old_none
    by blast
  have counts4: "snd (fst (review_loop_old (make_config_old [] [js ''docs''] False)
      example_globals example_env [item_a] (0, 0) (scripted_net [Inr review_body], []))) = 0"
    by (simp only: run_old_one_accepted snd_conv)
  have "aiCheckDiffContext_old example_engine (make_config_old [] [js ''docs''] False)
      example_globals example_env example_shell (scripted_net [Inr review_body], []) =
      (Resolved, snd (review_loop_old (make_config_old [] [js ''docs''] False)
        example_globals example_env [item_a] (0, 0) (scripted_net [Inr review_body], [])))"
    using terminal_classification [unfolded Let_def,
        where ?cfg0.0 = "make_config_old [] [js ''docs''] False"
        and rx = example_engine and ev = example_env and sh = example_shell
        and ?items0.0 = "[item_a]" and g = example_globals
        and st = "(scripted_net [Inr review_body], [])"]
      collected_old_src items counts4
    by blast
  then have reviewed_old: "fst (aiCheckDiffContext_old example_engine
      (make_config_old [] [js ''docs''] False) example_globals example_env example_shell
      (scripted_net [Inr review_body], [])) = Resolved"
    by (simp only: fst_conv)
  have counts5: "fst (fst (review_loop_old (make_config_old [] [js ''docs''] False)
      example_globals example_env [item_a] (0, 0)
      (scripted_net [Inr error_body, Inr error_body], []))) = 0"
    "snd (fst (review_loop_old (make_config_old [] [js ''docs''] False)
      example_globals example_env [item_a] (0, 0)
      (scripted_net [Inr error_body, Inr error_body], []))) > 0"
    by (simp_all only: run_old_one_refused fst_conv snd_conv zero_less_one)
  have "aiCheckDiffContext_old example_engine (make_config_old [] [js ''docs''] False)
      example_globals example_env example_shell
      (scripted_net [Inr error_body, Inr error_body], []) =
      (Exit 1, snd (review_loop_old (make_config_old [] [js ''docs''] False)
        example_globals example_env [item_a] (0, 0)
        (scripted_net [Inr error_body, Inr error_body], [])))"
    using terminal_classification [unfolded Let_def,
        where ?cfg0.0 = "make_config_old [] [js ''docs''] False"
        and rx = example_engine and ev = example_env and sh = example_shell
        and ?items0.0 = "[item_a]" and g = example_globals
        and st = "(scripted_net [Inr error_body, Inr error_body], [])"]
      collected_old_src items counts5
    by blast
  then have failed_old: "fst (aiCheckDiffContext_old example_engine
      (make_config_old [] [js ''docs''] False) example_globals example_env example_shell
      (scripted_net [Inr error_body, Inr error_body], [])) = Exit 1"
    by (simp only: fst_conv)
  note hyps = scripted_connected [of "JObj []" "[]"] collected_none
  from hyps no_items reviewed failed partial no_items_old reviewed_old failed_old
    counts1 counts2 counts3
  show ?thesis
    by blast
qed

end
